theory Spec2Isabelle
  imports Complex_Main "HOL-Library.Sublist" "HOL-Library.AList" "HOL-Library.Multiset"
    "HOL-Library.Product_Lexorder"
begin

section \<open>Python values\<close>

text \<open>
  A Python \<^verbatim>\<open>str\<close> is a sequence of Unicode code points: \<^verbatim>\<open>len\<close> counts code points and
  \<^verbatim>\<open>s[:n]\<close> keeps the first \<^verbatim>\<open>n\<close> of them. A string is therefore a list of code points
  (natural numbers); \<open>lit\<close> turns an ASCII literal of the source into such a list.
\<close>

type_synonym pystr = "nat list"

definition lit :: "string \<Rightarrow> pystr" where
  "lit s = map of_char s"

text \<open>Decimal digits of a natural number, and \<^verbatim>\<open>str(i)\<close> of an \<^verbatim>\<open>int\<close>.\<close>

fun digits :: "nat \<Rightarrow> pystr" where
  "digits n = (if n < 10 then [48 + n] else digits (n div 10) @ [48 + n mod 10])"

declare digits.simps [simp del]

definition str_int :: "int \<Rightarrow> pystr" where
  "str_int i = (if i < 0 then 45 # digits (nat (- i)) else digits (nat i))"

text \<open>\<^verbatim>\<open>sep.join(parts)\<close> on a list of strings.\<close>

fun py_join :: "pystr \<Rightarrow> pystr list \<Rightarrow> pystr" where
  "py_join sep [] = []"
| "py_join sep [x] = x"
| "py_join sep (x # y # ys) = x @ sep @ py_join sep (y # ys)"

text \<open>
  A Python \<^verbatim>\<open>float\<close> is an IEEE 754 binary64 value: a sign bit with a magnitude, finite
  or infinite. A finite one is represented by its sign bit (\<open>True\<close> is negative) and the
  exact rational magnitude, so \<open>Finite True 0\<close> is \<^verbatim>\<open>-0.0\<close>. NaN is not represented: no
  arithmetic of the tools produces it, and \<^verbatim>\<open>json.loads\<close> yields it only for the token
  \<^verbatim>\<open>NaN\<close>, which is not JSON.
\<close>

datatype pyfloat = Finite bool rat | Infinite bool

text \<open>
  What \<^verbatim>\<open>response.json()\<close> returns. A dict keeps its items in insertion order and its keys
  are distinct; it is the list of its items.
\<close>

datatype json =
    JNull
  | JBool bool
  | JInt int
  | JFloat pyfloat
  | JStr pystr
  | JArr "json list"
  | JObj "(pystr \<times> json) list"

text \<open>
  Exceptions. \<open>Exception msg\<close> is \<^verbatim>\<open>Exception(msg)\<close> as \<^verbatim>\<open>fetch_json\<close> raises it. \<open>Raised\<close>
  is any other exception (\<^verbatim>\<open>KeyError\<close>, \<^verbatim>\<open>TypeError\<close>, \<^verbatim>\<open>IndexError\<close>, \<^verbatim>\<open>AttributeError\<close>,
  \<^verbatim>\<open>ValueError\<close>, \<^verbatim>\<open>OverflowError\<close>): the only handlers of the tools are
  \<^verbatim>\<open>except Exception\<close>, which catch them all alike, so their classes are not told apart.
\<close>

datatype exn = Exception pystr | Raised

definition ebind :: "exn + 'a \<Rightarrow> ('a \<Rightarrow> exn + 'b) \<Rightarrow> exn + 'b" where
  "ebind m f = (case m of Inl e \<Rightarrow> Inl e | Inr x \<Rightarrow> f x)"

text \<open>
  The loop \<^verbatim>\<open>for x in xs: result.append(f(x))\<close>: one entry for each element, in order; it
  ends where the body raises.
\<close>

fun for_each :: "('a \<Rightarrow> exn + 'b) \<Rightarrow> 'a list \<Rightarrow> exn + 'b list" where
  "for_each f [] = Inr []"
| "for_each f (x # xs) = ebind (f x) (\<lambda>e. ebind (for_each f xs) (\<lambda>es. Inr (e # es)))"

text \<open>
  The operations of the Python runtime that the tools call and that are tables or
  algorithms of the interpreter rather than code of this repository are parameters of
  the model: \<^verbatim>\<open>str.upper\<close>, \<^verbatim>\<open>str.lower\<close> and \<^verbatim>\<open>str.capitalize\<close> (Unicode case mapping,
  which can change the length of a string), \<^verbatim>\<open>str(x)\<close> of a float, a list or a dict, and
  \<^verbatim>\<open>int(s)\<close> of a string (\<open>None\<close> when it raises \<^verbatim>\<open>ValueError\<close>).
\<close>

record runtime =
  rt_upper :: "pystr \<Rightarrow> pystr"
  rt_lower :: "pystr \<Rightarrow> pystr"
  rt_capitalize :: "pystr \<Rightarrow> pystr"
  rt_repr :: "json \<Rightarrow> pystr"
  rt_int :: "pystr \<Rightarrow> int option"

text \<open>\<^verbatim>\<open>bool(x)\<close>, the test of \<^verbatim>\<open>if x\<close>, \<^verbatim>\<open>x or y\<close> and \<^verbatim>\<open>not x\<close>.\<close>

fun py_truthy :: "json \<Rightarrow> bool" where
  "py_truthy JNull = False"
| "py_truthy (JBool b) = b"
| "py_truthy (JInt i) = (i \<noteq> 0)"
| "py_truthy (JFloat (Finite s m)) = (m \<noteq> 0)"
| "py_truthy (JFloat (Infinite s)) = True"
| "py_truthy (JStr s) = (s \<noteq> [])"
| "py_truthy (JArr xs) = (xs \<noteq> [])"
| "py_truthy (JObj kvs) = (kvs \<noteq> [])"

text \<open>\<^verbatim>\<open>str(x)\<close>, which is also what an f-string field \<^verbatim>\<open>{x}\<close> renders.\<close>

fun py_str :: "runtime \<Rightarrow> json \<Rightarrow> pystr" where
  "py_str rt (JStr s) = s"
| "py_str rt JNull = lit ''None''"
| "py_str rt (JBool b) = (if b then lit ''True'' else lit ''False'')"
| "py_str rt (JInt i) = str_int i"
| "py_str rt v = rt_repr rt v"

text \<open>\<^verbatim>\<open>x[key]\<close> with a string key: only a dict has one (\<^verbatim>\<open>KeyError\<close> when it is missing).\<close>

fun py_getitem :: "json \<Rightarrow> pystr \<Rightarrow> exn + json" where
  "py_getitem (JObj kvs) k = (case map_of kvs k of Some v \<Rightarrow> Inr v | None \<Rightarrow> Inl Raised)"
| "py_getitem v k = Inl Raised"

text \<open>\<^verbatim>\<open>x.get(key, default)\<close>: only a dict has the method.\<close>

fun py_get :: "json \<Rightarrow> pystr \<Rightarrow> json \<Rightarrow> exn + json" where
  "py_get (JObj kvs) k d = (case map_of kvs k of Some v \<Rightarrow> Inr v | None \<Rightarrow> Inr d)"
| "py_get v k d = Inl Raised"

text \<open>
  \<^verbatim>\<open>x[i]\<close> with an index \<^verbatim>\<open>i >= 0\<close>: an element of a list, a one-character string of a
  string; a dict of JSON has no integer key.
\<close>

fun py_index :: "json \<Rightarrow> nat \<Rightarrow> exn + json" where
  "py_index (JArr xs) i = (if i < length xs then Inr (xs ! i) else Inl Raised)"
| "py_index (JStr s) i = (if i < length s then Inr (JStr [s ! i]) else Inl Raised)"
| "py_index v i = Inl Raised"

text \<open>\<^verbatim>\<open>x[:n]\<close> and \<^verbatim>\<open>x[n:]\<close>: lists and strings can be sliced.\<close>

fun py_slice_to :: "nat \<Rightarrow> json \<Rightarrow> exn + json" where
  "py_slice_to n (JArr xs) = Inr (JArr (take n xs))"
| "py_slice_to n (JStr s) = Inr (JStr (take n s))"
| "py_slice_to n v = Inl Raised"


text \<open>The elements a \<^verbatim>\<open>for\<close> loop visits: of a string, its characters; of a dict, its keys.\<close>

fun py_iter :: "json \<Rightarrow> exn + json list" where
  "py_iter (JArr xs) = Inr xs"
| "py_iter (JStr s) = Inr (map (\<lambda>c. JStr [c]) s)"
| "py_iter (JObj kvs) = Inr (map (\<lambda>kv. JStr (fst kv)) kvs)"
| "py_iter v = Inl Raised"

text \<open>\<^verbatim>\<open>len(x)\<close>.\<close>

fun py_len :: "json \<Rightarrow> exn + nat" where
  "py_len (JArr xs) = Inr (length xs)"
| "py_len (JStr s) = Inr (length s)"
| "py_len (JObj kvs) = Inr (length kvs)"
| "py_len v = Inl Raised"

text \<open>
  \<^verbatim>\<open>int(x)\<close>: parses a string, truncates a float towards zero; \<^verbatim>\<open>None\<close>, a list or a dict
  is a \<^verbatim>\<open>TypeError\<close>, an infinite float an \<^verbatim>\<open>OverflowError\<close>.
\<close>

fun py_int :: "runtime \<Rightarrow> json \<Rightarrow> exn + int" where
  "py_int rt (JStr s) = (case rt_int rt s of Some i \<Rightarrow> Inr i | None \<Rightarrow> Inl Raised)"
| "py_int rt (JInt i) = Inr i"
| "py_int rt (JBool b) = Inr (if b then 1 else 0)"
| "py_int rt (JFloat (Finite s m)) = Inr (if s then - \<lfloor>m\<rfloor> else \<lfloor>m\<rfloor>)"
| "py_int rt v = Inl Raised"

text \<open>\<^verbatim>\<open>format(i, ",")\<close> of an \<^verbatim>\<open>int\<close>: the decimal digits in groups of three.\<close>

fun group3 :: "pystr \<Rightarrow> pystr" where
  "group3 ds =
     (if length ds \<le> 3 then ds
      else group3 (take (length ds - 3) ds) @ 44 # drop (length ds - 3) ds)"

declare group3.simps [simp del]

definition fmt_comma :: "int \<Rightarrow> pystr" where
  "fmt_comma i = (if i < 0 then 45 # group3 (digits (nat (- i))) else group3 (digits (nat i)))"

section \<open>utils/config.py\<close>

text \<open>
  \<^verbatim>\<open>Config\<close>: the two keys are \<^verbatim>\<open>os.environ.get(...)\<close>, a string or \<^verbatim>\<open>None\<close>; \<^verbatim>\<open>timeout\<close> is an
  \<^verbatim>\<open>int\<close>.
\<close>

record config =
  openweather_api_key :: "pystr option"
  nasa_api_key :: "pystr option"
  timeout :: int

text \<open>\<^verbatim>\<open>bool(key)\<close> of a key that is a string or \<^verbatim>\<open>None\<close>.\<close>

definition key_set :: "pystr option \<Rightarrow> bool" where
  "key_set k = (case k of None \<Rightarrow> False | Some s \<Rightarrow> s \<noteq> [])"

definition has_openweather :: "config \<Rightarrow> bool" where
  "has_openweather cfg = key_set (openweather_api_key cfg)"

definition has_nasa_key :: "config \<Rightarrow> bool" where
  "has_nasa_key cfg = key_set (nasa_api_key cfg)"

section \<open>utils/http.py\<close>

text \<open>
  A request is the URL and the \<^verbatim>\<open>params\<close> dict handed to \<^verbatim>\<open>http_client.get\<close> (\<open>None\<close> when
  the tool passes none). The tools are sequential programs whose only effect is the
  network: each function takes the list of the requests made so far and returns it
  extended by the requests it makes.
\<close>

record request =
  req_url :: pystr
  req_params :: "(pystr \<times> json) list option"

text \<open>
  What the three calls in the \<^verbatim>\<open>try\<close> block of \<^verbatim>\<open>fetch_json\<close> do, as far as its handlers
  tell: they return the parsed body, or httpx raises \<^verbatim>\<open>TimeoutException\<close>,
  \<^verbatim>\<open>HTTPStatusError\<close> (from \<^verbatim>\<open>raise_for_status\<close>, with the response's status code and
  text), another \<^verbatim>\<open>RequestError\<close> \<^verbatim>\<open>e\<close> (with \<^verbatim>\<open>str(e)\<close>), or something no handler catches
  (\<^verbatim>\<open>response.json()\<close> on a body that is not JSON).
\<close>

datatype http_outcome =
    Json json
  | TimeoutException
  | HTTPStatusError int pystr
  | RequestError pystr
  | OtherError

text \<open>The network: the outcome of a request, which may depend on the requests before it.\<close>

type_synonym network = "request list \<Rightarrow> request \<Rightarrow> http_outcome"

definition fetch_json ::
  "config \<Rightarrow> network \<Rightarrow> pystr \<Rightarrow> (pystr \<times> json) list option \<Rightarrow> request list
     \<Rightarrow> (exn + json) \<times> request list" where
  "fetch_json cfg net url params sent =
     (let req = \<lparr>req_url = url, req_params = params\<rparr> in
      ((case net sent req of
          Json j \<Rightarrow> Inr j
        | TimeoutException \<Rightarrow>
            Inl (Exception (lit ''Request timed out after '' @ str_int (timeout cfg)
                              @ lit ''s: '' @ url))
        | HTTPStatusError status_code body \<Rightarrow>
            Inl (Exception (lit ''HTTP '' @ str_int status_code @ lit '': '' @ take 200 body))
        | RequestError e \<Rightarrow> Inl (Exception (lit ''Request failed: '' @ e))
        | OtherError \<Rightarrow> Inl Raised),
       sent @ [req]))"

section \<open>census.py\<close>

text \<open>\<^verbatim>\<open>STATE_FIPS\<close> (census.py, lines 11-23): the items of the dict, in source order.\<close>

definition STATE_FIPS :: "(pystr \<times> pystr) list" where
  "STATE_FIPS = map (\<lambda>(k, v). (lit k, lit v)) [
    (''AL'', ''01''), (''AK'', ''02''), (''AZ'', ''04''), (''AR'', ''05''), (''CA'', ''06''),
    (''CO'', ''08''), (''CT'', ''09''), (''DE'', ''10''), (''FL'', ''12''), (''GA'', ''13''),
    (''HI'', ''15''), (''ID'', ''16''), (''IL'', ''17''), (''IN'', ''18''), (''IA'', ''19''),
    (''KS'', ''20''), (''KY'', ''21''), (''LA'', ''22''), (''ME'', ''23''), (''MD'', ''24''),
    (''MA'', ''25''), (''MI'', ''26''), (''MN'', ''27''), (''MS'', ''28''), (''MO'', ''29''),
    (''MT'', ''30''), (''NE'', ''31''), (''NV'', ''32''), (''NH'', ''33''), (''NJ'', ''34''),
    (''NM'', ''35''), (''NY'', ''36''), (''NC'', ''37''), (''ND'', ''38''), (''OH'', ''39''),
    (''OK'', ''40''), (''OR'', ''41''), (''PA'', ''42''), (''RI'', ''44''), (''SC'', ''45''),
    (''SD'', ''46''), (''TN'', ''47''), (''TX'', ''48''), (''UT'', ''49''), (''VT'', ''50''),
    (''VA'', ''51''), (''WA'', ''53''), (''WV'', ''54''), (''WI'', ''55''), (''WY'', ''56''),
    (''DC'', ''11''), (''PR'', ''72'')]"

text \<open>\<^verbatim>\<open>STATE_FIPS.get(state_code, state_code)\<close>: the value of the key, or the key itself.\<close>

definition fips_lookup :: "pystr \<Rightarrow> pystr" where
  "fips_lookup state_code =
     (case map_of STATE_FIPS state_code of Some v \<Rightarrow> v | None \<Rightarrow> state_code)"

text \<open>
  The first two statements of \<^verbatim>\<open>get_population\<close>, \<^verbatim>\<open>get_demographics\<close> and
  \<^verbatim>\<open>get_housing_stats\<close>:
  \<^verbatim>\<open>state_code = state.upper(); fips = STATE_FIPS.get(state_code, state_code)\<close>.
\<close>

definition state_fips :: "runtime \<Rightarrow> pystr \<Rightarrow> pystr" where
  "state_fips rt state = fips_lookup (rt_upper rt state)"

text \<open>A decimal digit, \<^verbatim>\<open>0\<close> to \<^verbatim>\<open>9\<close>.\<close>

definition is_digit :: "nat \<Rightarrow> bool" where
  "is_digit c = (48 \<le> c \<and> c \<le> 57)"

definition CENSUS_BASE :: pystr where
  "CENSUS_BASE = lit ''https://api.census.gov/data''"

definition ACS_YEAR :: pystr where
  "ACS_YEAR = lit ''2022''"

definition ACS_DATASET :: pystr where
  "ACS_DATASET = CENSUS_BASE @ lit ''/'' @ ACS_YEAR @ lit ''/acs/acs5''"







text \<open>\<^verbatim>\<open>get_housing_stats\<close>, lines 135-154: the URL it requests.\<close>

definition get_housing_stats_url :: "runtime \<Rightarrow> pystr \<Rightarrow> pystr \<Rightarrow> pystr" where
  "get_housing_stats_url rt state county =
     (let fips = state_fips rt state;
          variables = py_join (lit '','') (map lit [''NAME'', ''B25001_001E'', ''B25002_002E'',
            ''B25002_003E'', ''B25077_001E'', ''B25064_001E'']);
          geo = (if county \<noteq> [] then lit ''county:'' @ county @ lit ''&in=state:'' @ fips
                 else lit ''state:'' @ fips)
      in ACS_DATASET @ lit ''?get='' @ variables @ lit ''&for='' @ geo)"

section \<open>tools/weather.py\<close>

definition NOAA_BASE :: pystr where
  "NOAA_BASE = lit ''https://api.weather.gov''"





text \<open>The loop of \<^verbatim>\<open>get_weather_alerts\<close> (lines 58-64): the entry of an alert.\<close>

definition alert_entry :: "runtime \<Rightarrow> json \<Rightarrow> exn + pystr" where
  "alert_entry rt alert =
     ebind (py_getitem alert (lit ''properties'')) (\<lambda>props.
     ebind (py_getitem props (lit ''event'')) (\<lambda>event.
     ebind (py_getitem props (lit ''severity'')) (\<lambda>severity.
     ebind (py_get props (lit ''areaDesc'') (JStr (lit ''N/A''))) (\<lambda>area.
     ebind (py_get props (lit ''headline'') (JStr [])) (\<lambda>headline.
       Inr (lit ''**'' @ py_str rt event @ lit ''** ('' @ py_str rt severity @ lit '')'' @ [10]
             @ lit ''Areas: '' @ py_str rt area @ [10] @ py_str rt headline))))))"

text \<open>The entries of the alerts \<^verbatim>\<open>alerts[:10]\<close>.\<close>

definition alerts_shown :: "runtime \<Rightarrow> json \<Rightarrow> exn + pystr list" where
  "alerts_shown rt alerts =
     ebind (py_slice_to 10 alerts) (\<lambda>alerts10.
     ebind (py_iter alerts10) (\<lambda>as. for_each (alert_entry rt) as))"

definition state_error :: pystr where
  "state_error = lit ''Error: State must be a 2-letter code (e.g., 'CA', 'TX')''"

definition get_weather_alerts ::
  "config \<Rightarrow> runtime \<Rightarrow> network \<Rightarrow> pystr \<Rightarrow> request list \<Rightarrow> (exn + pystr) \<times> request list" where
  "get_weather_alerts cfg rt net state0 sent =
     (let state = rt_upper rt state0 in
      if length state \<noteq> 2 then (Inr state_error, sent)
      else
        (let url = NOAA_BASE @ lit ''/alerts/active'' in
         case fetch_json cfg net url (Some [(lit ''area'', JStr state)]) sent of
           (Inl e, sent') \<Rightarrow> (Inl e, sent')
         | (Inr data, sent') \<Rightarrow>
             (ebind (py_get data (lit ''features'') (JArr [])) (\<lambda>alerts.
                if \<not> py_truthy alerts then Inr (lit ''No active weather alerts for '' @ state)
                else ebind (alerts_shown rt alerts) (\<lambda>es.
                  Inr (py_join (lit ''\<newline>\<newline>---\<newline>\<newline>'')
                        ((lit ''Active weather alerts for '' @ state @ lit '':'' @ [10]) # es)))),
              sent')))"

definition openweather_denied :: pystr where
  "openweather_denied =
     lit ''Error: OpenWeather tools require OPENWEATHER_API_KEY environment variable''"

text \<open>
  \<^verbatim>\<open>config.openweather_api_key\<close> as a request parameter: \<^verbatim>\<open>None\<close> when the variable is not
  set.
\<close>

definition key_param :: "pystr option \<Rightarrow> json" where
  "key_param k = (case k of None \<Rightarrow> JNull | Some s \<Rightarrow> JStr s)"

text \<open>Lines 93-104 of \<^verbatim>\<open>get_global_weather\<close>: the text made from the response.\<close>

definition global_weather_text :: "runtime \<Rightarrow> json \<Rightarrow> exn + pystr" where
  "global_weather_text rt data =
     ebind (py_getitem data (lit ''weather'')) (\<lambda>ws.
     ebind (py_index ws 0) (\<lambda>weather.
     ebind (py_getitem data (lit ''main'')) (\<lambda>main.
     ebind (py_get data (lit ''wind'') (JObj [])) (\<lambda>wind.
     ebind (py_getitem data (lit ''name'')) (\<lambda>name.
     ebind (py_getitem data (lit ''sys'')) (\<lambda>sys.
     ebind (py_getitem sys (lit ''country'')) (\<lambda>country.
     ebind (py_getitem weather (lit ''description'')) (\<lambda>description.
     ebind (case description of JStr d \<Rightarrow> Inr (rt_capitalize rt d) | other \<Rightarrow> Inl Raised)
       (\<lambda>conditions.
     ebind (py_getitem main (lit ''temp'')) (\<lambda>temp.
     ebind (py_getitem main (lit ''feels_like'')) (\<lambda>feels_like.
     ebind (py_getitem main (lit ''humidity'')) (\<lambda>humidity.
     ebind (py_get wind (lit ''speed'') (JStr (lit ''N/A''))) (\<lambda>speed.
     ebind (py_getitem main (lit ''pressure'')) (\<lambda>pressure.
       Inr (lit ''**Weather in '' @ py_str rt name @ lit '', '' @ py_str rt country
              @ lit ''**'' @ [10, 10]
            @ lit ''Conditions: '' @ conditions @ [10]
            @ lit ''Temperature: '' @ py_str rt temp @ [176] @ lit ''C (feels like ''
              @ py_str rt feels_like @ [176] @ lit ''C)'' @ [10]
            @ lit ''Humidity: '' @ py_str rt humidity @ lit ''%'' @ [10]
            @ lit ''Wind: '' @ py_str rt speed @ lit '' m/s'' @ [10]
            @ lit ''Pressure: '' @ py_str rt pressure @ lit '' hPa'')))))))))))))))"

definition get_global_weather ::
  "config \<Rightarrow> runtime \<Rightarrow> network \<Rightarrow> pystr \<Rightarrow> pystr \<Rightarrow> request list
     \<Rightarrow> (exn + pystr) \<times> request list" where
  "get_global_weather cfg rt net city country_code sent =
     (if \<not> has_openweather cfg then (Inr openweather_denied, sent)
      else
        (let query = (if country_code \<noteq> [] then city @ lit '','' @ country_code else city);
             url = lit ''https://api.openweathermap.org/data/2.5/weather'';
             params = [(lit ''q'', JStr query),
                       (lit ''appid'', key_param (openweather_api_key cfg)),
                       (lit ''units'', JStr (lit ''metric''))]
         in case fetch_json cfg net url (Some params) sent of
              (Inl e, sent') \<Rightarrow> (Inl e, sent')
            | (Inr data, sent') \<Rightarrow> (global_weather_text rt data, sent')))"


text \<open>\<^verbatim>\<open>params or {}\<close> for a \<^verbatim>\<open>params\<close> that is a dict or \<^verbatim>\<open>None\<close>.\<close>

definition params_or_empty :: "(pystr \<times> json) list option \<Rightarrow> (pystr \<times> json) list" where
  "params_or_empty params = (case params of None \<Rightarrow> [] | Some kvs \<Rightarrow> kvs)"

definition query_openweather ::
  "config \<Rightarrow> network \<Rightarrow> pystr \<Rightarrow> (pystr \<times> json) list option \<Rightarrow> request list
     \<Rightarrow> (exn + json) \<times> request list" where
  "query_openweather cfg net endpoint params0 sent =
     (if \<not> has_openweather cfg then
        (Inr (JObj [(lit ''error'',
           JStr (lit ''OpenWeather requires OPENWEATHER_API_KEY environment variable''))]), sent)
      else
        (let url = lit ''https://api.openweathermap.org'' @ endpoint;
             params = params_or_empty params0;
             params = AList.update (lit ''appid'') (key_param (openweather_api_key cfg)) params
         in fetch_json cfg net url (Some params) sent))"

section \<open>tools/nasa.py\<close>

definition NASA_BASE :: pystr where
  "NASA_BASE = lit ''https://api.nasa.gov''"

text \<open>\<^verbatim>\<open>config.nasa_api_key or "DEMO_KEY"\<close>.\<close>

definition get_api_key :: "config \<Rightarrow> pystr" where
  "get_api_key cfg =
     (case nasa_api_key cfg of
        None \<Rightarrow> lit ''DEMO_KEY''
      | Some k \<Rightarrow> if k \<noteq> [] then k else lit ''DEMO_KEY'')"

text \<open>\<^verbatim>\<open>get_astronomy_photo\<close>, lines 24-26: the \<^verbatim>\<open>params\<close> dict.\<close>

definition astronomy_photo_params :: "config \<Rightarrow> pystr \<Rightarrow> (pystr \<times> json) list" where
  "astronomy_photo_params cfg date =
     (let params = [(lit ''api_key'', JStr (get_api_key cfg))] in
      if date \<noteq> [] then AList.update (lit ''date'') (JStr date) params else params)"

text \<open>Lines 30-38: the text made from the response.\<close>

definition astronomy_photo_text :: "runtime \<Rightarrow> json \<Rightarrow> exn + pystr" where
  "astronomy_photo_text rt data =
     ebind (py_get data (lit ''media_type'') (JStr (lit ''image''))) (\<lambda>media_type.
     let url_key = (if media_type = JStr (lit ''image'') then lit ''url'' else lit ''url'') in
     ebind (py_getitem data (lit ''title'')) (\<lambda>title.
     ebind (py_getitem data (lit ''date'')) (\<lambda>date.
     ebind (py_getitem data (lit ''explanation'')) (\<lambda>explanation.
     ebind (py_get data url_key (JStr (lit ''N/A''))) (\<lambda>link.
       Inr (lit ''**'' @ py_str rt title @ lit ''**'' @ [10]
            @ lit ''Date: '' @ py_str rt date @ [10, 10]
            @ py_str rt explanation @ [10, 10]
            @ (if media_type = JStr (lit ''image'') then lit ''Image'' else lit ''Video'')
            @ lit '': '' @ py_str rt link))))))"

definition get_astronomy_photo ::
  "config \<Rightarrow> runtime \<Rightarrow> network \<Rightarrow> pystr \<Rightarrow> request list \<Rightarrow> (exn + pystr) \<times> request list" where
  "get_astronomy_photo cfg rt net date sent =
     (case fetch_json cfg net (NASA_BASE @ lit ''/planetary/apod'')
             (Some (astronomy_photo_params cfg date)) sent of
        (Inl e, sent') \<Rightarrow> (Inl e, sent')
      | (Inr data, sent') \<Rightarrow> (astronomy_photo_text rt data, sent'))"

text \<open>
  \<^verbatim>\<open>get_mars_rover_photos\<close>, lines 57-69: the \<^verbatim>\<open>params\<close> dict; \<^verbatim>\<open>sol\<close> is an \<^verbatim>\<open>int\<close> or
  \<^verbatim>\<open>None\<close>.
\<close>

definition mars_rover_params ::
  "config \<Rightarrow> runtime \<Rightarrow> int option \<Rightarrow> pystr \<Rightarrow> pystr \<Rightarrow> (pystr \<times> json) list" where
  "mars_rover_params cfg rt sol earth_date camera =
     (let params = [(lit ''api_key'', JStr (get_api_key cfg))];
          params = (case sol of
                      Some n \<Rightarrow> AList.update (lit ''sol'') (JInt n) params
                    | None \<Rightarrow>
                        if earth_date \<noteq> []
                        then AList.update (lit ''earth_date'') (JStr earth_date) params
                        else AList.update (lit ''sol'') (JInt 1000) params)
      in if camera \<noteq> [] then AList.update (lit ''camera'') (JStr (rt_lower rt camera)) params
         else params)"

text \<open>The loop of lines 81-86: the entry of a photo.\<close>

definition photo_entry :: "runtime \<Rightarrow> json \<Rightarrow> exn + pystr" where
  "photo_entry rt photo =
     ebind (py_getitem photo (lit ''camera'')) (\<lambda>camera.
     ebind (py_getitem camera (lit ''full_name'')) (\<lambda>full_name.
     ebind (py_getitem photo (lit ''sol'')) (\<lambda>sol.
     ebind (py_getitem photo (lit ''earth_date'')) (\<lambda>earth_date.
     ebind (py_getitem photo (lit ''img_src'')) (\<lambda>img_src.
       Inr (lit ''- Camera: '' @ py_str rt full_name @ [10]
             @ lit ''  Sol: '' @ py_str rt sol @ lit '' | Earth Date: '' @ py_str rt earth_date
             @ [10] @ lit ''  URL: '' @ py_str rt img_src))))))"

text \<open>The entries of the photos \<^verbatim>\<open>photos[:10]\<close>.\<close>

definition photos_shown :: "runtime \<Rightarrow> json \<Rightarrow> exn + pystr list" where
  "photos_shown rt photos =
     ebind (py_slice_to 10 photos) (\<lambda>photos10.
     ebind (py_iter photos10) (\<lambda>ps. for_each (photo_entry rt) ps))"

definition get_mars_rover_photos ::
  "config \<Rightarrow> runtime \<Rightarrow> network \<Rightarrow> pystr \<Rightarrow> int option \<Rightarrow> pystr \<Rightarrow> pystr \<Rightarrow> request list
     \<Rightarrow> (exn + pystr) \<times> request list" where
  "get_mars_rover_photos cfg rt net rover0 sol earth_date camera sent =
     (let rover = rt_lower rt rover0;
          params = mars_rover_params cfg rt sol earth_date camera;
          url = NASA_BASE @ lit ''/mars-photos/api/v1/rovers/'' @ rover @ lit ''/photos''
      in case fetch_json cfg net url (Some params) sent of
           (Inl e, sent') \<Rightarrow> (Inl e, sent')
         | (Inr data, sent') \<Rightarrow>
             (ebind (py_get data (lit ''photos'') (JArr [])) (\<lambda>photos.
                if \<not> py_truthy photos
                then Inr (lit ''No photos found for '' @ rover
                          @ lit '' with the specified parameters'')
                else
                  ebind (py_len photos) (\<lambda>n.
                  ebind (photos_shown rt photos) (\<lambda>es.
                    Inr (py_join [10, 10]
                      ((lit ''**Mars Rover Photos - '' @ rt_capitalize rt rover @ lit ''**'' @ [10])
                       # (lit ''Found '' @ str_int (int n) @ lit '' photos'' @ [10])
                       # es))))),
              sent'))"

text \<open>The loop of \<^verbatim>\<open>search_nasa_images\<close> (lines 112-122): the entry of an item.\<close>

definition image_entry :: "runtime \<Rightarrow> json \<Rightarrow> exn + pystr" where
  "image_entry rt item =
     ebind (py_get item (lit ''data'') (JArr [JObj []])) (\<lambda>ds.
     ebind (py_index ds 0) (\<lambda>item_data.
     ebind (py_get item (lit ''links'') (JArr [JObj []])) (\<lambda>links.
     ebind (if py_truthy links
            then ebind (py_index links 0) (\<lambda>l. py_get l (lit ''href'') (JStr (lit ''N/A'')))
            else Inr (JStr (lit ''N/A''))) (\<lambda>preview.
     ebind (py_get item_data (lit ''title'') (JStr (lit ''Untitled''))) (\<lambda>title.
     ebind (py_get item_data (lit ''date_created'') (JStr (lit ''N/A''))) (\<lambda>created.
     ebind (py_slice_to 10 created) (\<lambda>created10.
     ebind (py_get item_data (lit ''description'') (JStr (lit ''N/A''))) (\<lambda>description.
     ebind (py_slice_to 200 description) (\<lambda>description200.
       Inr (lit ''**'' @ py_str rt title @ lit ''**'' @ [10]
             @ lit ''Date: '' @ py_str rt created10 @ [10]
             @ lit ''Description: '' @ py_str rt description200 @ lit ''...'' @ [10]
             @ lit ''Preview: '' @ py_str rt preview))))))))))"

text \<open>The entries of the items \<^verbatim>\<open>items[:10]\<close>.\<close>

definition images_shown :: "runtime \<Rightarrow> json \<Rightarrow> exn + pystr list" where
  "images_shown rt items =
     ebind (py_slice_to 10 items) (\<lambda>items10.
     ebind (py_iter items10) (\<lambda>is. for_each (image_entry rt) is))"

definition search_nasa_images_params :: "pystr \<Rightarrow> pystr \<Rightarrow> (pystr \<times> json) list" where
  "search_nasa_images_params query media_type =
     [(lit ''q'', JStr query), (lit ''media_type'', JStr media_type)]"

definition search_nasa_images ::
  "config \<Rightarrow> runtime \<Rightarrow> network \<Rightarrow> pystr \<Rightarrow> pystr \<Rightarrow> request list
     \<Rightarrow> (exn + pystr) \<times> request list" where
  "search_nasa_images cfg rt net query media_type sent =
     (let url = lit ''https://images-api.nasa.gov/search'';
          params = search_nasa_images_params query media_type
      in case fetch_json cfg net url (Some params) sent of
           (Inl e, sent') \<Rightarrow> (Inl e, sent')
         | (Inr data, sent') \<Rightarrow>
             (ebind (py_get data (lit ''collection'') (JObj [])) (\<lambda>collection.
              ebind (py_get collection (lit ''items'') (JArr [])) (\<lambda>items.
                if \<not> py_truthy items
                then Inr (lit ''No results found for '' @ [39] @ query @ [39])
                else
                  ebind (py_len items) (\<lambda>n.
                  ebind (images_shown rt items) (\<lambda>es.
                    Inr (py_join (lit ''\<newline>\<newline>---\<newline>\<newline>'')
                      ((lit ''**NASA Image Search: '' @ [39] @ query @ [39] @ lit ''**'' @ [10])
                       # (lit ''Found '' @ str_int (int n) @ lit '' results'' @ [10])
                       # es)))))),
              sent'))"

definition query_nasa_params :: "config \<Rightarrow> (pystr \<times> json) list option \<Rightarrow> (pystr \<times> json) list" where
  "query_nasa_params cfg params0 =
     AList.update (lit ''api_key'') (JStr (get_api_key cfg)) (params_or_empty params0)"

definition query_nasa ::
  "config \<Rightarrow> network \<Rightarrow> pystr \<Rightarrow> (pystr \<times> json) list option \<Rightarrow> request list
     \<Rightarrow> (exn + json) \<times> request list" where
  "query_nasa cfg net endpoint params0 sent =
     (let url = NASA_BASE @ endpoint;
          params = query_nasa_params cfg params0
      in fetch_json cfg net url (Some params) sent)"

section \<open>Float arithmetic\<close>

text \<open>
  Python's floats are IEEE 754 binary64 numbers and every operation rounds its exact
  result to the nearest of them, ties to the even significand. \<open>round_binary64 q\<close> is
  that rounding for a magnitude \<open>q \<ge> 0\<close>, \<open>None\<close> when the result is beyond the largest
  finite float: the significand has 53 bits, the exponent of the leading bit is at least
  \<open>-1022\<close> (below it the numbers are subnormal, in steps of \<open>2 ^ -1074\<close>), and a result of
  \<open>2 ^ 1024\<close> or more overflows.
\<close>

definition pow2 :: "int \<Rightarrow> rat" where
  "pow2 e = (if 0 \<le> e then of_int (2 ^ nat e) else 1 / of_int (2 ^ nat (- e)))"

definition round_half_even :: "rat \<Rightarrow> int" where
  "round_half_even q =
     (let f = \<lfloor>q\<rfloor>; r = q - of_int f in
      if r < 1 / 2 then f else if 1 / 2 < r then f + 1 else if even f then f else f + 1)"

text \<open>\<^verbatim>\<open>n.bit_length()\<close> of an \<^verbatim>\<open>int\<close> \<^verbatim>\<open>n >= 0\<close>.\<close>

function bit_length :: "int \<Rightarrow> nat" where
  "bit_length n = (if n \<le> 0 then 0 else Suc (bit_length (n div 2)))"
  by pat_completeness auto
termination
  by (relation "measure nat") auto

declare bit_length.simps [simp del]

text \<open>The exponent of the leading bit of \<open>q > 0\<close>: the \<open>e\<close> with \<open>2 ^ e \<le> q < 2 ^ (e + 1)\<close>.\<close>

definition ilog2 :: "rat \<Rightarrow> int" where
  "ilog2 q =
     (let (a, b) = quotient_of q;
          k = int (bit_length a) - int (bit_length b)
      in if pow2 k \<le> q then k else k - 1)"

definition round_binary64 :: "rat \<Rightarrow> rat option" where
  "round_binary64 q =
     (if q = 0 then Some 0
      else
        (let e = max (ilog2 q) (- 1022);
             u = pow2 (e - 52);
             r = of_int (round_half_even (q / u)) * u
         in if r < pow2 1024 then Some r else None))"

text \<open>
  \<^verbatim>\<open>a / b\<close> of two \<^verbatim>\<open>int\<close>s: \<^verbatim>\<open>ZeroDivisionError\<close> for \<^verbatim>\<open>b == 0\<close>, else the correctly rounded
  quotient, negative when exactly one of the two is negative (so \<^verbatim>\<open>0 / -5\<close> is \<^verbatim>\<open>-0.0\<close>),
  \<^verbatim>\<open>OverflowError\<close> when it is too large for a float.
\<close>

definition int_truediv :: "int \<Rightarrow> int \<Rightarrow> exn + pyfloat" where
  "int_truediv a b =
     (if b = 0 then Inl Raised
      else
        (case round_binary64 \<bar>of_int a / of_int b\<bar> of
           None \<Rightarrow> Inl Raised
         | Some m \<Rightarrow> Inr (Finite ((a < 0) \<noteq> (b < 0)) m)))"

text \<open>\<^verbatim>\<open>float(i)\<close> of an \<^verbatim>\<open>int\<close>: \<^verbatim>\<open>OverflowError\<close> when it is too large.\<close>

definition float_of_int :: "int \<Rightarrow> exn + pyfloat" where
  "float_of_int i =
     (case round_binary64 \<bar>of_int i\<bar> of
        None \<Rightarrow> Inl Raised
      | Some m \<Rightarrow> Inr (Finite (i < 0) m))"

text \<open>
  The product of a float and a positive rational \<open>c\<close>, rounded; an overflow gives an
  infinity, as float multiplication and division do. It is \<^verbatim>\<open>x * 100\<close> for \<open>c = 100\<close> and
  \<^verbatim>\<open>x / 1e12\<close> for \<open>c = 1 / 10 ^ 12\<close> (\<^verbatim>\<open>100\<close>, \<^verbatim>\<open>1e6\<close> and \<^verbatim>\<open>1e12\<close> are floats exactly).
\<close>

definition float_scale :: "pyfloat \<Rightarrow> rat \<Rightarrow> pyfloat" where
  "float_scale x c =
     (case x of
        Infinite s \<Rightarrow> Infinite s
      | Finite s m \<Rightarrow>
          (case round_binary64 (m * c) of
             None \<Rightarrow> Infinite s
           | Some r \<Rightarrow> Finite s r))"

text \<open>
  \<^verbatim>\<open>format(x, ".pf")\<close> of a float, and \<^verbatim>\<open>format(x, ",.pf")\<close> when \<open>grouped\<close>: the exact value
  rounded to \<open>p\<close> decimals, ties to even, with the sign of the float (also when the
  digits are all zero).
\<close>

definition fmt_fixed :: "bool \<Rightarrow> nat \<Rightarrow> pyfloat \<Rightarrow> pystr" where
  "fmt_fixed grouped p x =
     (case x of
        Infinite s \<Rightarrow> (if s then lit ''-inf'' else lit ''inf'')
      | Finite s m \<Rightarrow>
          (let t = nat (round_half_even (m * 10 ^ p));
               whole = digits (t div 10 ^ p);
               fraction = tl (digits (10 ^ p + t mod 10 ^ p))
           in (if s then [45] else [])
              @ (if grouped then group3 whole else whole)
              @ (if p = 0 then [] else 46 # fraction)))"

text \<open>
  The float that a number stands for in float arithmetic and in a format of type \<^verbatim>\<open>f\<close>;
  anything but an \<^verbatim>\<open>int\<close>, a \<^verbatim>\<open>bool\<close> or a \<^verbatim>\<open>float\<close> raises there.
\<close>

fun py_float_of :: "json \<Rightarrow> exn + pyfloat" where
  "py_float_of (JFloat x) = Inr x"
| "py_float_of (JInt i) = float_of_int i"
| "py_float_of (JBool b) = Inr (Finite False (if b then 1 else 0))"
| "py_float_of v = Inl Raised"

section \<open>tools/census.py: percentages\<close>

text \<open>
  \<^verbatim>\<open>pct\<close>, the local function of \<^verbatim>\<open>get_demographics\<close> (lines 108-109); \<^verbatim>\<open>total_pop\<close> is the
  variable of the enclosing function.
\<close>

definition pct :: "int \<Rightarrow> int \<Rightarrow> exn + pystr" where
  "pct total_pop n =
     (if total_pop \<noteq> 0
      then ebind (int_truediv n total_pop) (\<lambda>q.
             Inr (fmt_fixed False 1 (float_scale q 100) @ lit ''%''))
      else Inr (lit ''N/A''))"

text \<open>\<^verbatim>\<open>int(x) if x else 0\<close>, how both tools read a count from a row.\<close>

definition int_or_zero :: "runtime \<Rightarrow> json \<Rightarrow> exn + int" where
  "int_or_zero rt x = (if py_truthy x then py_int rt x else Inr 0)"

text \<open>\<^verbatim>\<open>get_housing_stats\<close>, line 164: the vacancy rate, a float or the \<^verbatim>\<open>int\<close> 0.\<close>

definition vacancy_rate :: "int \<Rightarrow> int \<Rightarrow> exn + json" where
  "vacancy_rate vacant total_units =
     (if total_units \<noteq> 0
      then ebind (int_truediv vacant total_units) (\<lambda>q. Inr (JFloat (float_scale q 100)))
      else Inr (JInt 0))"

text \<open>Line 170: the line of the vacant units, with \<^verbatim>\<open>{vacancy_rate:.1f}\<close>.\<close>

definition vacant_line :: "int \<Rightarrow> int \<Rightarrow> exn + pystr" where
  "vacant_line vacant total_units =
     ebind (vacancy_rate vacant total_units) (\<lambda>rate.
     ebind (py_float_of rate) (\<lambda>r.
       Inr (lit ''**Vacant**: '' @ fmt_comma vacant @ lit '' ('' @ fmt_fixed False 1 r
            @ lit ''% vacancy rate)'' @ [10, 10])))"

text \<open>Lines 156-174: the text \<^verbatim>\<open>get_housing_stats\<close> makes from the response.\<close>

definition housing_text :: "runtime \<Rightarrow> json \<Rightarrow> exn + pystr" where
  "housing_text rt data =
     ebind (py_index data 1) (\<lambda>row.
     ebind (py_index row 0) (\<lambda>name.
     ebind (ebind (py_index row 1) (int_or_zero rt)) (\<lambda>total_units.
     ebind (ebind (py_index row 2) (int_or_zero rt)) (\<lambda>occupied.
     ebind (ebind (py_index row 3) (int_or_zero rt)) (\<lambda>vacant.
     ebind (ebind (py_index row 4) (int_or_zero rt)) (\<lambda>median_value.
     ebind (ebind (py_index row 5) (int_or_zero rt)) (\<lambda>median_rent.
     ebind (vacant_line vacant total_units) (\<lambda>vacant_text.
       Inr (lit ''**Housing Statistics for '' @ py_str rt name @ lit ''** ('' @ ACS_YEAR
              @ lit '' ACS 5-Year Estimates)'' @ [10, 10]
            @ lit ''**Total Housing Units**: '' @ fmt_comma total_units @ [10]
            @ lit ''**Occupied**: '' @ fmt_comma occupied @ [10]
            @ vacant_text
            @ lit ''**Median Home Value**: $'' @ fmt_comma median_value @ [10]
            @ lit ''**Median Gross Rent**: $'' @ fmt_comma median_rent @ lit ''/month'')))))))))"

definition get_housing_stats ::
  "config \<Rightarrow> runtime \<Rightarrow> network \<Rightarrow> pystr \<Rightarrow> pystr \<Rightarrow> request list
     \<Rightarrow> (exn + pystr) \<times> request list" where
  "get_housing_stats cfg rt net state county sent =
     (case fetch_json cfg net (get_housing_stats_url rt state county) None sent of
        (Inl e, sent') \<Rightarrow> (Inl e, sent')
      | (Inr data, sent') \<Rightarrow> (housing_text rt data, sent'))"

section \<open>tools/datagov.py\<close>










section \<open>tools/eu_data.py\<close>


text \<open>
  The expression \<^verbatim>\<open>obj.get("en") or list(obj.values())[0] if obj else placeholder\<close> for
  a dict \<^verbatim>\<open>obj\<close>, which Python reads as
  \<^verbatim>\<open>(obj.get("en") or list(obj.values())[0]) if obj else placeholder\<close>: the placeholder for the
  empty dict; else the entry of \<^verbatim>\<open>en\<close> when there is one and it is true; else the first
  value of the dict.
\<close>

definition multilingual :: "(pystr \<times> json) list \<Rightarrow> json \<Rightarrow> json" where
  "multilingual obj placeholder =
     (case obj of
        [] \<Rightarrow> placeholder
      | kv # rest \<Rightarrow>
          (case map_of obj (lit ''en'') of
             Some en \<Rightarrow> if py_truthy en then en else snd kv
           | None \<Rightarrow> snd kv))"

text \<open>
  The statement around it (lines 37-40 and likewise 43-46, 82-85, 88-91):
  \<^verbatim>\<open>if isinstance(obj, dict): x = ... else: x = str(obj)\<close>.
\<close>

definition localized :: "runtime \<Rightarrow> json \<Rightarrow> json \<Rightarrow> json" where
  "localized rt obj placeholder =
     (case obj of
        JObj kvs \<Rightarrow> multilingual kvs placeholder
      | other \<Rightarrow> JStr (py_str rt other))"

text \<open>\<^verbatim>\<open>search_eu_datasets\<close>, line 47: \<^verbatim>\<open>desc = desc[:200] if desc else "No description"\<close>.\<close>

definition shorten_description :: "json \<Rightarrow> exn + json" where
  "shorten_description desc =
     (if py_truthy desc then py_slice_to 200 desc else Inr (JStr (lit ''No description'')))"

text \<open>Lines 35-47: the title and the description of a dataset of the search.\<close>

definition eu_search_title :: "runtime \<Rightarrow> json \<Rightarrow> exn + json" where
  "eu_search_title rt ds =
     ebind (py_get ds (lit ''title'') (JObj [])) (\<lambda>title_obj.
       Inr (localized rt title_obj (JStr (lit ''Untitled''))))"

definition eu_search_description :: "runtime \<Rightarrow> json \<Rightarrow> exn + json" where
  "eu_search_description rt ds =
     ebind (py_get ds (lit ''description'') (JObj [])) (\<lambda>desc_obj.
       shorten_description (localized rt desc_obj (JStr [])))"





text \<open>Lines 80-91 of \<^verbatim>\<open>get_eu_dataset_info\<close>: the title and the description.\<close>

definition eu_info_title :: "runtime \<Rightarrow> json \<Rightarrow> exn + json" where
  "eu_info_title rt ds =
     ebind (py_get ds (lit ''title'') (JObj [])) (\<lambda>title_obj.
       Inr (localized rt title_obj (JStr (lit ''Untitled''))))"

definition eu_info_description :: "runtime \<Rightarrow> json \<Rightarrow> exn + json" where
  "eu_info_description rt ds =
     ebind (py_get ds (lit ''description'') (JObj [])) (\<lambda>desc_obj.
       Inr (localized rt desc_obj (JStr (lit ''No description''))))"





section \<open>tools/economics.py\<close>

definition WORLDBANK_BASE :: pystr where
  "WORLDBANK_BASE = lit ''https://api.worldbank.org/v2''"

text \<open>\<^verbatim>\<open>indicator_names.get(indicator, indicator)\<close> with the dict of \<^verbatim>\<open>compare_countries\<close>.\<close>

definition compare_indicator_name :: "pystr \<Rightarrow> pystr" where
  "compare_indicator_name indicator =
     (case map_of [(lit ''NY.GDP.MKTP.CD'', lit ''GDP (current US$)''),
                   (lit ''SP.POP.TOTL'', lit ''Population''),
                   (lit ''NY.GDP.PCAP.CD'', lit ''GDP per Capita''),
                   (lit ''SL.UEM.TOTL.ZS'', lit ''Unemployment Rate (%)'')] indicator of
        Some name \<Rightarrow> name
      | None \<Rightarrow> indicator)"

text \<open>Lines 101-102: the URL and the parameters of the request for a country.\<close>

definition compare_url :: "pystr \<Rightarrow> pystr \<Rightarrow> pystr" where
  "compare_url indicator country =
     WORLDBANK_BASE @ lit ''/country/'' @ country @ lit ''/indicator/'' @ indicator"

definition compare_params :: "(pystr \<times> json) list" where
  "compare_params = [(lit ''format'', JStr (lit ''json'')), (lit ''per_page'', JInt 1),
                     (lit ''mrv'', JInt 1)]"

text \<open>The request that \<^verbatim>\<open>fetch_json\<close> makes of them.\<close>

definition compare_request :: "pystr \<Rightarrow> pystr \<Rightarrow> request" where
  "compare_request indicator country =
     \<lparr>req_url = compare_url indicator country, req_params = Some compare_params\<rparr>"

text \<open>A data point: the tuple \<^verbatim>\<open>(country_name, value, year)\<close>.\<close>

type_synonym data_point = "json \<times> json \<times> json"

text \<open>
  Lines 106-113, the rest of the \<^verbatim>\<open>try\<close> block after the fetch: the data point appended
  for a response, \<open>None\<close> when the response has no record or its value is \<^verbatim>\<open>None\<close>.
\<close>

definition extract_point :: "pystr \<Rightarrow> json \<Rightarrow> exn + data_point option" where
  "extract_point country data =
     ebind (py_len data) (\<lambda>n.
       if 1 < n then
         ebind (py_index data 1) (\<lambda>records.
           if py_truthy records then
             ebind (py_index records 0) (\<lambda>record.
             ebind (py_get record (lit ''value'') JNull) (\<lambda>v.
             ebind (py_get record (lit ''date'') JNull) (\<lambda>year.
             ebind (py_get record (lit ''country'') (JObj [])) (\<lambda>country_obj.
             ebind (py_get country_obj (lit ''value'') (JStr country)) (\<lambda>country_name.
               if v \<noteq> JNull then Inr (Some (country_name, v, year)) else Inr None)))))
           else Inr None)
       else Inr None)"

text \<open>
  One turn of the loop of lines 100-115: the fetch for a country and the data points it
  appends. \<^verbatim>\<open>except Exception: pass\<close> catches whatever the \<^verbatim>\<open>try\<close> block raises.
\<close>

definition fetch_point ::
  "config \<Rightarrow> network \<Rightarrow> pystr \<Rightarrow> pystr \<Rightarrow> request list \<Rightarrow> data_point list \<times> request list" where
  "fetch_point cfg net indicator country sent =
     (let url = compare_url indicator country;
          params = compare_params
      in case fetch_json cfg net url (Some params) sent of
           (r, sent') \<Rightarrow>
             ((case ebind r (extract_point country) of
                 Inr (Some point) \<Rightarrow> [point]
               | Inr None \<Rightarrow> []
               | Inl e \<Rightarrow> []),
              sent'))"

text \<open>The loop: \<^verbatim>\<open>data_points\<close> after all countries.\<close>

fun collect_points ::
  "config \<Rightarrow> network \<Rightarrow> pystr \<Rightarrow> pystr list \<Rightarrow> request list
     \<Rightarrow> data_point list \<times> request list" where
  "collect_points cfg net indicator [] sent = ([], sent)"
| "collect_points cfg net indicator (country # countries) sent =
     (case fetch_point cfg net indicator country sent of
        (points, sent1) \<Rightarrow>
          (case collect_points cfg net indicator countries sent1 of
             (rest, sent2) \<Rightarrow> (points @ rest, sent2)))"

text \<open>
  The order of the numbers: an \<^verbatim>\<open>int\<close>, a \<^verbatim>\<open>bool\<close> (\<^verbatim>\<open>True\<close> is 1) and a \<^verbatim>\<open>float\<close> compare by
  their exact values, the infinities below and above all of them. The key of a number
  is a pair in lexicographic order: \<open>(-1, 0)\<close> and \<open>(1, 0)\<close> for the infinities, \<open>(0, x)\<close>
  for the finite \<open>x\<close>. Values that are not numbers have none.
\<close>

fun number_key :: "json \<Rightarrow> (int \<times> rat) option" where
  "number_key (JInt i) = Some (0, of_int i)"
| "number_key (JBool b) = Some (0, if b then 1 else 0)"
| "number_key (JFloat (Finite s m)) = Some (0, if s then - m else m)"
| "number_key (JFloat (Infinite s)) = Some (if s then - 1 else 1, 0)"
| "number_key v = None"

definition point_key :: "data_point \<Rightarrow> int \<times> rat" where
  "point_key p = the (number_key (fst (snd p)))"

text \<open>
  Line 118, \<^verbatim>\<open>data_points.sort(key=lambda x: x[1], reverse=True)\<close>, for values that are
  numbers: the stable sort of the reversed list, reversed, which is how \<^verbatim>\<open>list.sort\<close> keeps
  the order of equal keys under \<^verbatim>\<open>reverse=True\<close>. With a value that is not a number the
  tool raises: in the sort when it compares values of two kinds, and else in the loop
  after it, where no format of lines 121-128 accepts such a value.
\<close>

definition sort_points :: "data_point list \<Rightarrow> exn + data_point list" where
  "sort_points points =
     (if list_all (\<lambda>p. number_key (fst (snd p)) \<noteq> None) points
      then Inr (rev (sort_key point_key (rev points)))
      else Inl Raised)"

text \<open>The loop of lines 120-130: the line of a data point.\<close>

definition format_point :: "runtime \<Rightarrow> pystr \<Rightarrow> data_point \<Rightarrow> exn + pystr" where
  "format_point rt indicator p =
     (case p of (country_name, v, year) \<Rightarrow>
        ebind (py_float_of v) (\<lambda>x.
          let formatted =
            (if indicator = lit ''NY.GDP.MKTP.CD''
             then lit ''$'' @ fmt_fixed False 2 (float_scale x (1 / 10 ^ 12)) @ lit ''T''
             else if indicator = lit ''SP.POP.TOTL''
             then fmt_fixed False 1 (float_scale x (1 / 10 ^ 6)) @ lit ''M''
             else if indicator = lit ''NY.GDP.PCAP.CD''
             then lit ''$'' @ fmt_fixed True 0 x
             else fmt_fixed True 2 x)
          in Inr (lit ''- '' @ py_str rt country_name @ lit '': '' @ formatted
                  @ lit '' ('' @ py_str rt year @ lit '')'')))"

definition compare_countries ::
  "config \<Rightarrow> runtime \<Rightarrow> network \<Rightarrow> pystr list \<Rightarrow> pystr \<Rightarrow> request list
     \<Rightarrow> (exn + pystr) \<times> request list" where
  "compare_countries cfg rt net countries indicator sent =
     (let name = compare_indicator_name indicator;
          header = lit ''**Comparing '' @ name @ lit ''**'' @ [10]
      in case collect_points cfg net indicator countries sent of
           (data_points, sent') \<Rightarrow>
             (ebind (sort_points data_points) (\<lambda>sorted_points.
              ebind (for_each (format_point rt indicator) sorted_points) (\<lambda>lines.
                Inr (py_join [10] (header # lines)))),
              sent'))"

text \<open>
  A response of the World Bank to such a request, as the examples use it: the metadata
  of the page, and the list of its one record.
\<close>

definition wb_response :: "pystr \<Rightarrow> pystr \<Rightarrow> pystr \<Rightarrow> pystr \<Rightarrow> json \<Rightarrow> json" where
  "wb_response iso2 iso3 country_name year v =
     JArr [JObj [(lit ''page'', JInt 1), (lit ''pages'', JInt 1), (lit ''per_page'', JInt 1),
                 (lit ''total'', JInt 1), (lit ''sourceid'', JStr (lit ''2'')),
                 (lit ''lastupdated'', JStr (lit ''2024-06-28''))],
           JArr [JObj [(lit ''indicator'',
                          JObj [(lit ''id'', JStr (lit ''SP.POP.TOTL'')),
                                (lit ''value'', JStr (lit ''Population, total''))]),
                       (lit ''country'',
                          JObj [(lit ''id'', JStr iso2), (lit ''value'', JStr country_name)]),
                       (lit ''countryiso3code'', JStr iso3),
                       (lit ''date'', JStr year),
                       (lit ''value'', v),
                       (lit ''unit'', JStr []),
                       (lit ''obs_status'', JStr []),
                       (lit ''decimal'', JInt 0)]]]"

text \<open>
  An upstream for the examples: it knows the population of \<^verbatim>\<open>USA\<close> and \<^verbatim>\<open>CHN\<close> and answers
  every other request with status 404.
\<close>

definition example_worldbank :: network where
  "example_worldbank sent req =
     (if req_url req = compare_url (lit ''SP.POP.TOTL'') (lit ''USA'')
      then Json (wb_response (lit ''US'') (lit ''USA'') (lit ''United States'') (lit ''2022'')
                   (JInt 333287557))
      else if req_url req = compare_url (lit ''SP.POP.TOTL'') (lit ''CHN'')
      then Json (wb_response (lit ''CN'') (lit ''CHN'') (lit ''China'') (lit ''2022'')
                   (JInt 1412175000))
      else HTTPStatusError 404 (lit ''Not Found''))"

text \<open>The same upstream, serving its values as strings.\<close>

definition example_worldbank_text :: network where
  "example_worldbank_text sent req =
     (if req_url req = compare_url (lit ''SP.POP.TOTL'') (lit ''USA'')
      then Json (wb_response (lit ''US'') (lit ''USA'') (lit ''United States'') (lit ''2022'')
                   (JStr (lit ''333287557'')))
      else if req_url req = compare_url (lit ''SP.POP.TOTL'') (lit ''CHN'')
      then Json (wb_response (lit ''CN'') (lit ''CHN'') (lit ''China'') (lit ''2022'')
                   (JStr (lit ''1412175000'')))
      else HTTPStatusError 404 (lit ''Not Found''))"

section \<open>A runtime for the examples\<close>

text \<open>
  \<^verbatim>\<open>str.upper\<close> and \<^verbatim>\<open>str.lower\<close> map each code point by Unicode's full case mapping. The
  two tables are given here for the code points U+0000 to U+00FF (Basic Latin and the
  Latin-1 Supplement), where they are: a-z and the letters U+00E0 to U+00FE but U+00F7
  go 32 down, U+00B5 goes to U+039C, U+00FF to U+0178, and U+00DF (sharp s) to the two
  letters SS. \<^verbatim>\<open>str.capitalize\<close> puts the first code point into title case, which is its
  upper case but for U+00DF, whose title case is the two letters Ss, and the rest into
  lower case. Code points above U+00FF are left as they are, so the tables stand for
  Python's on strings below U+0100 only. \<^verbatim>\<open>int\<close> of a string below U+0100 reads, between
  white space, an optional sign and decimal digits, which single underscores may
  separate; the limit that the interpreter puts on the number of digits is left out.
  This runtime is used to run the model on concrete inputs, never in a general theorem.
\<close>

definition upper_cp :: "nat \<Rightarrow> pystr" where
  "upper_cp c =
     (if 97 \<le> c \<and> c \<le> 122 then [c - 32]
      else if c = 181 then [924]
      else if c = 223 then [83, 83]
      else if 224 \<le> c \<and> c \<le> 254 \<and> c \<noteq> 247 then [c - 32]
      else if c = 255 then [376]
      else [c])"

definition lower_cp :: "nat \<Rightarrow> pystr" where
  "lower_cp c =
     (if 65 \<le> c \<and> c \<le> 90 then [c + 32]
      else if 192 \<le> c \<and> c \<le> 222 \<and> c \<noteq> 215 then [c + 32]
      else [c])"

definition latin1_upper :: "pystr \<Rightarrow> pystr" where
  "latin1_upper s = concat (map upper_cp s)"

definition latin1_lower :: "pystr \<Rightarrow> pystr" where
  "latin1_lower s = concat (map lower_cp s)"

definition title_cp :: "nat \<Rightarrow> pystr" where
  "title_cp c = (if c = 223 then [83, 115] else upper_cp c)"

definition latin1_capitalize :: "pystr \<Rightarrow> pystr" where
  "latin1_capitalize s = (case s of [] \<Rightarrow> [] | c # cs \<Rightarrow> title_cp c @ latin1_lower cs)"

text \<open>
  The white space below U+0100: U+0009 to U+000D, U+001C to U+0020, U+0085 and U+00A0.
\<close>

definition is_space :: "nat \<Rightarrow> bool" where
  "is_space c = (9 \<le> c \<and> c \<le> 13 \<or> 28 \<le> c \<and> c \<le> 32 \<or> c = 133 \<or> c = 160)"

text \<open>
  The digits of a literal, \<open>after_digit\<close> telling whether the code point before was a
  digit: an underscore stands between two digits, and the literal ends with a digit.
\<close>

fun digit_groups :: "bool \<Rightarrow> pystr \<Rightarrow> bool" where
  "digit_groups after_digit [] = after_digit"
| "digit_groups after_digit (c # cs) =
     (if 48 \<le> c \<and> c \<le> 57 then digit_groups True cs
      else c = 95 \<and> after_digit \<and> digit_groups False cs)"

definition decimal_int :: "pystr \<Rightarrow> int option" where
  "decimal_int s =
     (let t = dropWhile is_space (rev (dropWhile is_space (rev s)));
          negative = (t \<noteq> [] \<and> hd t = 45);
          body = (if t \<noteq> [] \<and> (hd t = 45 \<or> hd t = 43) then tl t else t);
          magnitude = foldl (\<lambda>a c. 10 * a + (int c - 48)) 0 (filter (\<lambda>c. c \<noteq> 95) body)
      in if digit_groups False body
         then Some (if negative then - magnitude else magnitude) else None)"

definition example_runtime :: runtime where
  "example_runtime =
     \<lparr>rt_upper = latin1_upper, rt_lower = latin1_lower, rt_capitalize = latin1_capitalize,
      rt_repr = (\<lambda>v. lit ''<repr>''), rt_int = decimal_int\<rparr>"

definition example_config :: config where
  "example_config = \<lparr>openweather_api_key = None, nasa_api_key = None, timeout = 30\<rparr>"

section \<open>Facts\<close>

subsection \<open>The state table\<close>

lemma STATE_FIPS_shape:
  "list_all (\<lambda>(k, v). length k = 2 \<and> length v = 2 \<and> list_all is_digit v) STATE_FIPS"
  by (simp add: STATE_FIPS_def lit_def is_digit_def)

lemma STATE_FIPS_value:
  assumes "map_of STATE_FIPS k = Some v"
  shows "length v = 2 \<and> list_all is_digit v"
proof -
  from assms have "(k, v) \<in> set STATE_FIPS" by (rule map_of_SomeD)
  with STATE_FIPS_shape show ?thesis by (auto simp: list_all_iff)
qed

text \<open>
  C4, as the code has it. The table has 52 entries with distinct keys. When the
  uppercased state argument is a key of the table, the lookup of the census tools
  returns the key's value, which is a string of exactly two decimal digits (not five);
  \<^verbatim>\<open>CA\<close>, \<^verbatim>\<open>TX\<close> and \<^verbatim>\<open>DC\<close> give \<^verbatim>\<open>06\<close>, \<^verbatim>\<open>48\<close> and \<^verbatim>\<open>11\<close>. When it is not a key, the
  lookup returns the uppercased argument itself.
\<close>

theorem state_fips_lookup:
  "length STATE_FIPS = 52 \<and> distinct (map fst STATE_FIPS)
   \<and> (\<forall>v. map_of STATE_FIPS (rt_upper rt state) = Some v \<longrightarrow>
          state_fips rt state = v \<and> length v = 2 \<and> list_all is_digit v)
   \<and> (map_of STATE_FIPS (rt_upper rt state) = None \<longrightarrow>
          state_fips rt state = rt_upper rt state)
   \<and> fips_lookup (lit ''CA'') = lit ''06'' \<and> fips_lookup (lit ''TX'') = lit ''48''
   \<and> fips_lookup (lit ''DC'') = lit ''11''"
proof -
  have n: "length STATE_FIPS = 52" by (simp add: STATE_FIPS_def)
  have d: "distinct (map fst STATE_FIPS)" by (simp add: STATE_FIPS_def lit_def)
  have s: "\<forall>v. map_of STATE_FIPS (rt_upper rt state) = Some v \<longrightarrow>
          state_fips rt state = v \<and> length v = 2 \<and> list_all is_digit v"
    using STATE_FIPS_value by (simp add: state_fips_def fips_lookup_def)
  have u: "map_of STATE_FIPS (rt_upper rt state) = None \<longrightarrow>
          state_fips rt state = rt_upper rt state"
    by (simp add: state_fips_def fips_lookup_def)
  have c: "fips_lookup (lit ''CA'') = lit ''06''" "fips_lookup (lit ''TX'') = lit ''48''"
     "fips_lookup (lit ''DC'') = lit ''11''"
    by (simp_all add: fips_lookup_def STATE_FIPS_def lit_def)
  from n d s u c show ?thesis by blast
qed

text \<open>The lookup at \<^verbatim>\<open>ca\<close>, a key once uppercased, and at \<^verbatim>\<open>zz\<close>, which is none.\<close>

theorem state_fips_lookup_witness:
  "state_fips example_runtime (lit ''ca'') = lit ''06''
   \<and> length (state_fips example_runtime (lit ''ca'')) = 2
   \<and> state_fips example_runtime (lit ''zz'') = lit ''ZZ''"
proof -
  have a: "rt_upper example_runtime (lit ''ca'') = lit ''CA''"
    by (simp add: example_runtime_def latin1_upper_def upper_cp_def lit_def)
  have b: "rt_upper example_runtime (lit ''zz'') = lit ''ZZ''"
    by (simp add: example_runtime_def latin1_upper_def upper_cp_def lit_def)
  have c: "map_of STATE_FIPS (lit ''CA'') = Some (lit ''06'')"
    by (simp add: STATE_FIPS_def lit_def)
  have d: "map_of STATE_FIPS (lit ''ZZ'') = None"
    by (simp add: STATE_FIPS_def lit_def)
  from state_fips_lookup [of example_runtime "lit ''ca''"] a c
  have 1: "state_fips example_runtime (lit ''ca'') = lit ''06''
     \<and> length (lit ''06'') = 2" by simp
  from state_fips_lookup [of example_runtime "lit ''zz''"] b d
  have 2: "state_fips example_runtime (lit ''zz'') = lit ''ZZ''" by simp
  from 1 2 show ?thesis by simp
qed

text \<open>
  C4 as stated asks for a five-digit code: \<^verbatim>\<open>CA\<close> is a key of the table and its code
  \<^verbatim>\<open>06\<close> has two digits.
\<close>

theorem state_fips_five_digit_counterexample:
  "map_of STATE_FIPS (lit ''CA'') = Some (lit ''06'') \<and> length (fips_lookup (lit ''CA'')) \<noteq> 5"
  by (simp add: fips_lookup_def STATE_FIPS_def lit_def)

subsection \<open>The county argument of the census tools\<close>



subsection \<open>Requests\<close>

lemma snd_fetch_json:
  "snd (fetch_json cfg net url params sent) = sent @ [\<lparr>req_url = url, req_params = params\<rparr>]"
  by (simp add: fetch_json_def Let_def)

lemma fetch_then_snd:
  "snd (case fetch_json cfg net url params sent of
          (Inl e, sent') \<Rightarrow> (Inl e, sent')
        | (Inr data, sent') \<Rightarrow> (f data, sent'))
     = sent @ [\<lparr>req_url = url, req_params = params\<rparr>]"
  using snd_fetch_json [of cfg net url params sent]
  by (cases "fetch_json cfg net url params sent") (auto split: sum.splits)


subsection \<open>The state argument of the weather alerts\<close>

text \<open>
  C9, as the code has it. \<^verbatim>\<open>get_weather_alerts\<close> uppercases the state argument. When the
  uppercased string does not have exactly two characters, the tool returns the error
  string and the list of requests is unchanged. When it has exactly two, the tool makes
  the request to \<^verbatim>\<open>/alerts/active\<close> with the uppercased state as \<^verbatim>\<open>area\<close>. The test is on
  the length after uppercasing, not on the length of the argument.
\<close>

theorem get_weather_alerts_state_check:
  "(length (rt_upper rt state) \<noteq> 2 \<longrightarrow>
      get_weather_alerts cfg rt net state sent = (Inr state_error, sent))
   \<and> (length (rt_upper rt state) = 2 \<longrightarrow>
      snd (get_weather_alerts cfg rt net state sent) =
        sent @ [\<lparr>req_url = NOAA_BASE @ lit ''/alerts/active'',
                 req_params = Some [(lit ''area'', JStr (rt_upper rt state))]\<rparr>])
   \<and> state_error = lit ''Error: State must be a 2-letter code (e.g., 'CA', 'TX')''"
  by (simp add: get_weather_alerts_def Let_def fetch_then_snd state_error_def)

text \<open>The arguments \<^verbatim>\<open>cal\<close> (three characters) and \<^verbatim>\<open>ca\<close>.\<close>

theorem get_weather_alerts_state_check_witness:
  "get_weather_alerts example_config example_runtime (\<lambda>h r. Json (JObj [])) (lit ''cal'') []
     = (Inr state_error, [])
   \<and> snd (get_weather_alerts example_config example_runtime (\<lambda>h r. Json (JObj [])) (lit ''ca'') [])
     = [\<lparr>req_url = lit ''https://api.weather.gov/alerts/active'',
         req_params = Some [(lit ''area'', JStr (lit ''CA''))]\<rparr>]"
proof -
  have a: "rt_upper example_runtime (lit ''cal'') = lit ''CAL''"
    by (simp add: example_runtime_def latin1_upper_def upper_cp_def lit_def)
  have b: "rt_upper example_runtime (lit ''ca'') = lit ''CA''"
    by (simp add: example_runtime_def latin1_upper_def upper_cp_def lit_def)
  have c: "length (lit ''CAL'') \<noteq> 2" "length (lit ''CA'') = 2"
    by (simp_all add: lit_def)
  have u: "NOAA_BASE @ lit ''/alerts/active'' = lit ''https://api.weather.gov/alerts/active''"
    by (simp add: NOAA_BASE_def lit_def)
  from get_weather_alerts_state_check
         [of example_runtime "lit ''cal''" example_config "\<lambda>h r. Json (JObj [])" "[]"] a c
  have 1: "get_weather_alerts example_config example_runtime (\<lambda>h r. Json (JObj [])) (lit ''cal'') []
     = (Inr state_error, [])" by simp
  from get_weather_alerts_state_check
         [of example_runtime "lit ''ca''" example_config "\<lambda>h r. Json (JObj [])" "[]"] b c u
  have 2: "snd (get_weather_alerts example_config example_runtime (\<lambda>h r. Json (JObj [])) (lit ''ca'') [])
     = [\<lparr>req_url = lit ''https://api.weather.gov/alerts/active'',
         req_params = Some [(lit ''area'', JStr (lit ''CA''))]\<rparr>]" by simp
  from 1 2 show ?thesis by blast
qed

text \<open>
  C9 as stated has the fetch attempted for every two-character argument. The argument
  of the two characters U+00DF (sharp s) and \<^verbatim>\<open>a\<close> uppercases to the three characters
  \<^verbatim>\<open>SSA\<close>, and the tool returns the error string without a request.
\<close>

theorem get_weather_alerts_two_characters_counterexample:
  "length [223, 97 :: nat] = 2
   \<and> rt_upper example_runtime [223, 97] = lit ''SSA''
   \<and> get_weather_alerts example_config example_runtime (\<lambda>h r. Json (JObj [])) [223, 97] []
       = (Inr state_error, [])"
  by (simp add: get_weather_alerts_def example_runtime_def latin1_upper_def upper_cp_def lit_def)

subsection \<open>The OpenWeather key\<close>

text \<open>
  C2. Without an OpenWeather key (the variable unset or empty), \<^verbatim>\<open>get_global_weather\<close>
  returns, as a result and not as an exception, a string that contains
  \<^verbatim>\<open>OPENWEATHER_API_KEY\<close>, and the list of requests is unchanged; \<^verbatim>\<open>query_openweather\<close>
  returns a dict with such a string likewise. With a key, the guard is passed and the
  request is made, with the key as \<^verbatim>\<open>appid\<close>.
\<close>

theorem get_global_weather_gate:
  "(\<not> has_openweather cfg \<longrightarrow>
       get_global_weather cfg rt net city country_code sent = (Inr openweather_denied, sent)
     \<and> query_openweather cfg net endpoint params sent =
         (Inr (JObj [(lit ''error'',
            JStr (lit ''OpenWeather requires OPENWEATHER_API_KEY environment variable''))]), sent))
   \<and> sublist (lit ''OPENWEATHER_API_KEY'') openweather_denied
   \<and> sublist (lit ''OPENWEATHER_API_KEY'')
        (lit ''OpenWeather requires OPENWEATHER_API_KEY environment variable'')
   \<and> (has_openweather cfg \<longrightarrow>
        (\<exists>k. openweather_api_key cfg = Some k \<and> k \<noteq> []
          \<and> snd (get_global_weather cfg rt net city country_code sent) =
             sent @ [\<lparr>req_url = lit ''https://api.openweathermap.org/data/2.5/weather'',
                      req_params = Some [(lit ''q'', JStr (if country_code \<noteq> []
                                             then city @ lit '','' @ country_code else city)),
                                         (lit ''appid'', JStr k),
                                         (lit ''units'', JStr (lit ''metric''))]\<rparr>]
          \<and> snd (query_openweather cfg net endpoint params sent) =
             sent @ [\<lparr>req_url = lit ''https://api.openweathermap.org'' @ endpoint,
                      req_params = Some (AList.update (lit ''appid'') (JStr k)
                                           (params_or_empty params))\<rparr>]))"
proof -
  have d: "\<not> has_openweather cfg \<longrightarrow>
       get_global_weather cfg rt net city country_code sent = (Inr openweather_denied, sent)
     \<and> query_openweather cfg net endpoint params sent =
         (Inr (JObj [(lit ''error'',
            JStr (lit ''OpenWeather requires OPENWEATHER_API_KEY environment variable''))]), sent)"
    by (simp add: get_global_weather_def query_openweather_def)
  have s1: "sublist (lit ''OPENWEATHER_API_KEY'') openweather_denied"
    unfolding sublist_def openweather_denied_def
    by (rule exI [of _ "lit ''Error: OpenWeather tools require ''"],
        rule exI [of _ "lit '' environment variable''"]) (simp add: lit_def)
  have s2: "sublist (lit ''OPENWEATHER_API_KEY'')
        (lit ''OpenWeather requires OPENWEATHER_API_KEY environment variable'')"
    unfolding sublist_def
    by (rule exI [of _ "lit ''OpenWeather requires ''"],
        rule exI [of _ "lit '' environment variable''"]) (simp add: lit_def)
  have p: "has_openweather cfg \<longrightarrow>
        (\<exists>k. openweather_api_key cfg = Some k \<and> k \<noteq> []
          \<and> snd (get_global_weather cfg rt net city country_code sent) =
             sent @ [\<lparr>req_url = lit ''https://api.openweathermap.org/data/2.5/weather'',
                      req_params = Some [(lit ''q'', JStr (if country_code \<noteq> []
                                             then city @ lit '','' @ country_code else city)),
                                         (lit ''appid'', JStr k),
                                         (lit ''units'', JStr (lit ''metric''))]\<rparr>]
          \<and> snd (query_openweather cfg net endpoint params sent) =
             sent @ [\<lparr>req_url = lit ''https://api.openweathermap.org'' @ endpoint,
                      req_params = Some (AList.update (lit ''appid'') (JStr k)
                                           (params_or_empty params))\<rparr>])"
  proof
    assume h: "has_openweather cfg"
    then obtain k where k: "openweather_api_key cfg = Some k" "k \<noteq> []"
      by (auto simp: has_openweather_def key_set_def split: option.splits)
    from h k show "\<exists>k. openweather_api_key cfg = Some k \<and> k \<noteq> []
          \<and> snd (get_global_weather cfg rt net city country_code sent) =
             sent @ [\<lparr>req_url = lit ''https://api.openweathermap.org/data/2.5/weather'',
                      req_params = Some [(lit ''q'', JStr (if country_code \<noteq> []
                                             then city @ lit '','' @ country_code else city)),
                                         (lit ''appid'', JStr k),
                                         (lit ''units'', JStr (lit ''metric''))]\<rparr>]
          \<and> snd (query_openweather cfg net endpoint params sent) =
             sent @ [\<lparr>req_url = lit ''https://api.openweathermap.org'' @ endpoint,
                      req_params = Some (AList.update (lit ''appid'') (JStr k)
                                           (params_or_empty params))\<rparr>]"
      by (simp add: get_global_weather_def query_openweather_def Let_def fetch_then_snd
          snd_fetch_json key_param_def)
  qed
  from d s1 s2 p show ?thesis by blast
qed

text \<open>The city \<^verbatim>\<open>London\<close>, without a key and with the key \<^verbatim>\<open>k1\<close>.\<close>

theorem get_global_weather_gate_witness:
  "get_global_weather example_config example_runtime (\<lambda>h r. Json (JObj [])) (lit ''London'') [] []
     = (Inr openweather_denied, [])
   \<and> snd (get_global_weather (example_config\<lparr>openweather_api_key := Some (lit ''k1'')\<rparr>)
            example_runtime (\<lambda>h r. Json (JObj [])) (lit ''London'') [] [])
     = [\<lparr>req_url = lit ''https://api.openweathermap.org/data/2.5/weather'',
         req_params = Some [(lit ''q'', JStr (lit ''London'')), (lit ''appid'', JStr (lit ''k1'')),
                            (lit ''units'', JStr (lit ''metric''))]\<rparr>]"
proof -
  have a: "\<not> has_openweather example_config"
    by (simp add: has_openweather_def key_set_def example_config_def)
  have b: "has_openweather (example_config\<lparr>openweather_api_key := Some (lit ''k1'')\<rparr>)"
    by (simp add: has_openweather_def key_set_def example_config_def lit_def)
  from get_global_weather_gate [of example_config example_runtime "\<lambda>h r. Json (JObj [])"
      "lit ''London''" "[]" "[]"] a
  have 1: "get_global_weather example_config example_runtime (\<lambda>h r. Json (JObj [])) (lit ''London'') [] []
     = (Inr openweather_denied, [])" by blast
  from get_global_weather_gate [of "example_config\<lparr>openweather_api_key := Some (lit ''k1'')\<rparr>"
      example_runtime "\<lambda>h r. Json (JObj [])" "lit ''London''" "[]" "[]"] b
  have 2: "snd (get_global_weather (example_config\<lparr>openweather_api_key := Some (lit ''k1'')\<rparr>)
            example_runtime (\<lambda>h r. Json (JObj [])) (lit ''London'') [] [])
     = [\<lparr>req_url = lit ''https://api.openweathermap.org/data/2.5/weather'',
         req_params = Some [(lit ''q'', JStr (lit ''London'')), (lit ''appid'', JStr (lit ''k1'')),
                            (lit ''units'', JStr (lit ''metric''))]\<rparr>]"
    by (auto simp: example_config_def)
  from 1 2 show ?thesis by blast
qed

subsection \<open>Failures of the gateway\<close>






subsection \<open>The NASA key\<close>

lemma get_api_key_cases:
  "(\<not> has_nasa_key cfg \<longrightarrow> get_api_key cfg = lit ''DEMO_KEY'')
   \<and> (\<forall>k. nasa_api_key cfg = Some k \<and> k \<noteq> [] \<longrightarrow> get_api_key cfg = k)"
  by (auto simp: get_api_key_def has_nasa_key_def key_set_def split: option.splits)

lemma api_key_neq:
  "lit ''date'' \<noteq> lit ''api_key''" "lit ''sol'' \<noteq> lit ''api_key''"
  "lit ''earth_date'' \<noteq> lit ''api_key''" "lit ''camera'' \<noteq> lit ''api_key''"
  "lit ''q'' \<noteq> lit ''api_key''" "lit ''media_type'' \<noteq> lit ''api_key''"
  by (simp_all add: lit_def)

text \<open>
  C8, as the code has it. \<^verbatim>\<open>get_api_key\<close> is \<^verbatim>\<open>DEMO_KEY\<close> when no NASA key is configured
  (the variable unset or empty) and the configured key otherwise. \<^verbatim>\<open>get_astronomy_photo\<close>,
  \<^verbatim>\<open>get_mars_rover_photos\<close> and \<^verbatim>\<open>query_nasa\<close> deny nothing: each makes its request, with
  that key as the \<^verbatim>\<open>api_key\<close> parameter. \<^verbatim>\<open>search_nasa_images\<close> makes its request to the
  image library with the parameters \<^verbatim>\<open>q\<close> and \<^verbatim>\<open>media_type\<close> only.
\<close>

theorem nasa_api_key_param:
  "(\<not> has_nasa_key cfg \<longrightarrow> get_api_key cfg = lit ''DEMO_KEY'')
   \<and> (\<forall>k. nasa_api_key cfg = Some k \<and> k \<noteq> [] \<longrightarrow> get_api_key cfg = k)
   \<and> snd (get_astronomy_photo cfg rt net date sent) =
       sent @ [\<lparr>req_url = NASA_BASE @ lit ''/planetary/apod'',
                req_params = Some (astronomy_photo_params cfg date)\<rparr>]
   \<and> map_of (astronomy_photo_params cfg date) (lit ''api_key'') = Some (JStr (get_api_key cfg))
   \<and> snd (get_mars_rover_photos cfg rt net rover sol earth_date camera sent) =
       sent @ [\<lparr>req_url = NASA_BASE @ lit ''/mars-photos/api/v1/rovers/'' @ rt_lower rt rover
                           @ lit ''/photos'',
                req_params = Some (mars_rover_params cfg rt sol earth_date camera)\<rparr>]
   \<and> map_of (mars_rover_params cfg rt sol earth_date camera) (lit ''api_key'')
       = Some (JStr (get_api_key cfg))
   \<and> snd (query_nasa cfg net endpoint params sent) =
       sent @ [\<lparr>req_url = NASA_BASE @ endpoint,
                req_params = Some (query_nasa_params cfg params)\<rparr>]
   \<and> map_of (query_nasa_params cfg params) (lit ''api_key'') = Some (JStr (get_api_key cfg))
   \<and> snd (search_nasa_images cfg rt net query media_type sent) =
       sent @ [\<lparr>req_url = lit ''https://images-api.nasa.gov/search'',
                req_params = Some [(lit ''q'', JStr query),
                                   (lit ''media_type'', JStr media_type)]\<rparr>]"
proof -
  have a1: "snd (get_astronomy_photo cfg rt net date sent) =
       sent @ [\<lparr>req_url = NASA_BASE @ lit ''/planetary/apod'',
                req_params = Some (astronomy_photo_params cfg date)\<rparr>]"
    by (simp add: get_astronomy_photo_def fetch_then_snd)
  have a2: "map_of (astronomy_photo_params cfg date) (lit ''api_key'')
      = Some (JStr (get_api_key cfg))"
    by (simp add: astronomy_photo_params_def Let_def update_conv' api_key_neq api_key_neq [symmetric])
  have m1: "snd (get_mars_rover_photos cfg rt net rover sol earth_date camera sent) =
       sent @ [\<lparr>req_url = NASA_BASE @ lit ''/mars-photos/api/v1/rovers/'' @ rt_lower rt rover
                           @ lit ''/photos'',
                req_params = Some (mars_rover_params cfg rt sol earth_date camera)\<rparr>]"
    by (simp add: get_mars_rover_photos_def Let_def fetch_then_snd)
  have m2: "map_of (mars_rover_params cfg rt sol earth_date camera) (lit ''api_key'')
       = Some (JStr (get_api_key cfg))"
    by (simp add: mars_rover_params_def Let_def update_conv' api_key_neq api_key_neq [symmetric] split: option.splits)
  have q1: "snd (query_nasa cfg net endpoint params sent) =
       sent @ [\<lparr>req_url = NASA_BASE @ endpoint,
                req_params = Some (query_nasa_params cfg params)\<rparr>]"
    by (simp add: query_nasa_def Let_def snd_fetch_json)
  have q2: "map_of (query_nasa_params cfg params) (lit ''api_key'')
      = Some (JStr (get_api_key cfg))"
    by (simp add: query_nasa_params_def update_conv')
  have s1: "snd (search_nasa_images cfg rt net query media_type sent) =
       sent @ [\<lparr>req_url = lit ''https://images-api.nasa.gov/search'',
                req_params = Some [(lit ''q'', JStr query),
                                   (lit ''media_type'', JStr media_type)]\<rparr>]"
    by (simp add: search_nasa_images_def Let_def fetch_then_snd search_nasa_images_params_def)
  from get_api_key_cases [of cfg] a1 a2 m1 m2 q1 q2 s1 show ?thesis by blast
qed

text \<open>No key, the key \<^verbatim>\<open>k2\<close>, and the request of the astronomy photo without a key.\<close>

theorem nasa_api_key_param_witness:
  "get_api_key example_config = lit ''DEMO_KEY''
   \<and> get_api_key (example_config\<lparr>nasa_api_key := Some (lit ''k2'')\<rparr>) = lit ''k2''
   \<and> snd (get_astronomy_photo example_config example_runtime (\<lambda>h r. OtherError) [] [])
      = [\<lparr>req_url = lit ''https://api.nasa.gov/planetary/apod'',
          req_params = Some [(lit ''api_key'', JStr (lit ''DEMO_KEY''))]\<rparr>]"
proof -
  have a: "\<not> has_nasa_key example_config"
    by (simp add: has_nasa_key_def key_set_def example_config_def)
  have b: "nasa_api_key (example_config\<lparr>nasa_api_key := Some (lit ''k2'')\<rparr>) = Some (lit ''k2'')
       \<and> lit ''k2'' \<noteq> []"
    by (simp add: lit_def)
  have u: "NASA_BASE @ lit ''/planetary/apod'' = lit ''https://api.nasa.gov/planetary/apod''"
    by (simp add: NASA_BASE_def lit_def)
  from nasa_api_key_param [where cfg = example_config] a
  have 1: "get_api_key example_config = lit ''DEMO_KEY''" by blast
  from nasa_api_key_param [where cfg = "example_config\<lparr>nasa_api_key := Some (lit ''k2'')\<rparr>"] b
  have 2: "get_api_key (example_config\<lparr>nasa_api_key := Some (lit ''k2'')\<rparr>) = lit ''k2''"
    by blast
  from nasa_api_key_param [where cfg = example_config and rt = example_runtime
      and net = "\<lambda>h r. OtherError" and date = "[]" and sent = "[]"]
  have "snd (get_astronomy_photo example_config example_runtime (\<lambda>h r. OtherError) [] [])
      = [] @ [\<lparr>req_url = NASA_BASE @ lit ''/planetary/apod'',
          req_params = Some (astronomy_photo_params example_config [])\<rparr>]"
    by blast
  with 1 u have 3: "snd (get_astronomy_photo example_config example_runtime (\<lambda>h r. OtherError) [] [])
      = [\<lparr>req_url = lit ''https://api.nasa.gov/planetary/apod'',
          req_params = Some [(lit ''api_key'', JStr (lit ''DEMO_KEY''))]\<rparr>]"
    by (simp add: astronomy_photo_params_def)
  from 1 2 3 show ?thesis by blast
qed

text \<open>
  C8 as stated has every NASA tool supply \<^verbatim>\<open>api_key\<close>. \<^verbatim>\<open>search_nasa_images\<close>, with no key
  configured, sends a request whose parameters have no \<^verbatim>\<open>api_key\<close>.
\<close>

theorem search_nasa_images_no_key_counterexample:
  "\<not> has_nasa_key example_config
   \<and> snd (search_nasa_images example_config example_runtime (\<lambda>h r. OtherError)
            (lit ''mars'') (lit ''image'') [])
      = [\<lparr>req_url = lit ''https://images-api.nasa.gov/search'',
          req_params = Some [(lit ''q'', JStr (lit ''mars'')),
                             (lit ''media_type'', JStr (lit ''image''))]\<rparr>]
   \<and> map_of [(lit ''q'', JStr (lit ''mars'')), (lit ''media_type'', JStr (lit ''image''))]
        (lit ''api_key'') = None"
  by (simp add: has_nasa_key_def key_set_def example_config_def search_nasa_images_def Let_def
      fetch_then_snd search_nasa_images_params_def api_key_neq api_key_neq [symmetric])

subsection \<open>Percentages\<close>

lemma float_of_int_0: "float_of_int 0 = Inr (Finite False 0)"
  by (simp add: float_of_int_def round_binary64_def)

lemma fmt_fixed_zero: "fmt_fixed False 1 (Finite False 0) = lit ''0.0''"
  by code_simp

lemma fmt_fixed_zero_Suc: "fmt_fixed False (Suc 0) (Finite False 0) = lit ''0.0''"
  using fmt_fixed_zero by simp

lemma pct_200_50: "pct 200 50 = Inr (lit ''25.0%'')"
  by code_simp

text \<open>
  C5, as the code has it. Both ratios of the census tools test the denominator before
  they divide. \<^verbatim>\<open>pct\<close> of \<^verbatim>\<open>get_demographics\<close> returns \<^verbatim>\<open>N/A\<close> when the total is 0, and
  \<^verbatim>\<open>25.0%\<close> for the part 50 of the total 200. \<^verbatim>\<open>get_housing_stats\<close> takes the rate 0 when
  the total of housing units is 0, and renders it as \<^verbatim>\<open>0.0% vacancy rate\<close>, not as \<^verbatim>\<open>N/A\<close>.
\<close>

theorem percentage_zero_guard:
  "pct 0 n = Inr (lit ''N/A'')
   \<and> pct 200 50 = Inr (lit ''25.0%'')
   \<and> vacancy_rate vacant 0 = Inr (JInt 0)
   \<and> vacant_line vacant 0 =
       Inr (lit ''**Vacant**: '' @ fmt_comma vacant @ lit '' (0.0% vacancy rate)'' @ [10, 10])"
proof -
  have 1: "pct 0 n = Inr (lit ''N/A'')" by (simp add: pct_def)
  have 3: "vacancy_rate vacant 0 = Inr (JInt 0)" by (simp add: vacancy_rate_def)
  have "lit '' ('' @ lit ''0.0'' @ lit ''% vacancy rate)'' = lit '' (0.0% vacancy rate)''"
    by (simp add: lit_def)
  then have 4: "vacant_line vacant 0 =
       Inr (lit ''**Vacant**: '' @ fmt_comma vacant @ lit '' (0.0% vacancy rate)'' @ [10, 10])"
    by (simp add: vacant_line_def 3 ebind_def float_of_int_0 fmt_fixed_zero_Suc)
  from 1 pct_200_50 3 4 show ?thesis by blast
qed

text \<open>
  C5 as stated has the housing tool render \<^verbatim>\<open>N/A\<close> for zero housing units. A response
  whose row has 0 units, 0 occupied and 0 vacant is rendered with the line
  \<^verbatim>\<open>**Vacant**: 0 (0.0% vacancy rate)\<close>, which has no \<^verbatim>\<open>N/A\<close> in it.
\<close>

theorem vacancy_rate_zero_units_counterexample:
  "housing_text example_runtime
      (JArr [JArr [], JArr [JStr (lit ''X''), JStr (lit ''0''), JStr (lit ''0''), JStr (lit ''0''),
                            JStr (lit ''7''), JStr (lit ''8'')]])
     = Inr (lit ''**Housing Statistics for X** (2022 ACS 5-Year Estimates)\<newline>\<newline>**Total Housing Units**: 0\<newline>**Occupied**: 0\<newline>**Vacant**: 0 (0.0% vacancy rate)\<newline>\<newline>**Median Home Value**: $7\<newline>**Median Gross Rent**: $8/month'')
   \<and> vacant_line 0 0 = Inr (lit ''**Vacant**: 0 (0.0% vacancy rate)\<newline>\<newline>'')
   \<and> \<not> sublist (lit ''N/A'') (lit ''**Vacant**: 0 (0.0% vacancy rate)\<newline>\<newline>'')"
  by code_simp

subsection \<open>Multilingual fields\<close>

lemma multilingual_en:
  "map_of obj (lit ''en'') = Some (JStr s) \<Longrightarrow> s \<noteq> [] \<Longrightarrow> multilingual obj ph = JStr s"
  by (cases obj) (auto simp: multilingual_def)

lemma multilingual_no_en:
  "map_of obj (lit ''en'') = None \<Longrightarrow> obj \<noteq> [] \<Longrightarrow> multilingual obj ph = snd (hd obj)"
  by (cases obj) (auto simp: multilingual_def)

lemma multilingual_empty: "multilingual [] ph = ph"
  by (simp add: multilingual_def)

text \<open>
  C6, as the code has it. When the \<^verbatim>\<open>title\<close> (the \<^verbatim>\<open>description\<close>) of a dataset is a dict,
  both EU tools take from it: the \<^verbatim>\<open>en\<close> entry when it is there and not empty; the first
  entry of the dict when there is no \<^verbatim>\<open>en\<close> entry; the placeholder when the dict is empty,
  \<^verbatim>\<open>Untitled\<close> for a title and \<^verbatim>\<open>No description\<close> for a description. The title and the
  description of \<^verbatim>\<open>get_eu_dataset_info\<close> are that entry as it is. The description of
  \<^verbatim>\<open>search_eu_datasets\<close> is its first 200 characters, and \<^verbatim>\<open>No description\<close> when the
  entry is the empty string. The title dict with the one entry \<^verbatim>\<open>fr\<close>: \<^verbatim>\<open>Bonjour\<close> gives
  \<^verbatim>\<open>Bonjour\<close>, and the empty dict gives \<^verbatim>\<open>Untitled\<close>.
\<close>

theorem multilingual_fallback:
  "(map_of d (lit ''title'') = Some (JObj obj) \<longrightarrow>
       eu_search_title rt (JObj d) = Inr (multilingual obj (JStr (lit ''Untitled'')))
     \<and> eu_info_title rt (JObj d) = Inr (multilingual obj (JStr (lit ''Untitled''))))
   \<and> (map_of d (lit ''description'') = Some (JObj obj) \<longrightarrow>
       eu_info_description rt (JObj d) = Inr (multilingual obj (JStr (lit ''No description'')))
     \<and> eu_search_description rt (JObj d) = shorten_description (multilingual obj (JStr [])))
   \<and> (\<forall>s. map_of obj (lit ''en'') = Some (JStr s) \<and> s \<noteq> [] \<longrightarrow>
         multilingual obj ph = JStr s
       \<and> shorten_description (multilingual obj (JStr [])) = Inr (JStr (take 200 s)))
   \<and> (map_of obj (lit ''en'') = None \<and> obj \<noteq> [] \<longrightarrow>
         multilingual obj ph = snd (hd obj) \<and> snd (hd obj) \<in> snd ` set obj
       \<and> (\<forall>t. snd (hd obj) = JStr t \<longrightarrow>
             shorten_description (multilingual obj (JStr [])) =
               Inr (JStr (if t \<noteq> [] then take 200 t else lit ''No description''))))
   \<and> multilingual [] ph = ph
   \<and> shorten_description (multilingual [] (JStr [])) = Inr (JStr (lit ''No description''))
   \<and> multilingual [(lit ''fr'', JStr (lit ''Bonjour''))] (JStr (lit ''Untitled''))
       = JStr (lit ''Bonjour'')
   \<and> multilingual [] (JStr (lit ''Untitled'')) = JStr (lit ''Untitled'')"
proof -
  have t: "map_of d (lit ''title'') = Some (JObj obj) \<longrightarrow>
       eu_search_title rt (JObj d) = Inr (multilingual obj (JStr (lit ''Untitled'')))
     \<and> eu_info_title rt (JObj d) = Inr (multilingual obj (JStr (lit ''Untitled'')))"
    by (simp add: eu_search_title_def eu_info_title_def ebind_def localized_def)
  have d: "map_of d (lit ''description'') = Some (JObj obj) \<longrightarrow>
       eu_info_description rt (JObj d) = Inr (multilingual obj (JStr (lit ''No description'')))
     \<and> eu_search_description rt (JObj d) = shorten_description (multilingual obj (JStr []))"
    by (simp add: eu_search_description_def eu_info_description_def ebind_def localized_def)
  have e: "\<forall>s. map_of obj (lit ''en'') = Some (JStr s) \<and> s \<noteq> [] \<longrightarrow>
         multilingual obj ph = JStr s
       \<and> shorten_description (multilingual obj (JStr [])) = Inr (JStr (take 200 s))"
    by (simp add: multilingual_en shorten_description_def)
  have n: "map_of obj (lit ''en'') = None \<and> obj \<noteq> [] \<longrightarrow>
         multilingual obj ph = snd (hd obj) \<and> snd (hd obj) \<in> snd ` set obj
       \<and> (\<forall>t. snd (hd obj) = JStr t \<longrightarrow>
             shorten_description (multilingual obj (JStr [])) =
               Inr (JStr (if t \<noteq> [] then take 200 t else lit ''No description'')))"
    by (auto simp: multilingual_no_en shorten_description_def)
  have m: "multilingual [] ph = ph" by (rule multilingual_empty)
  have s: "shorten_description (multilingual [] (JStr [])) = Inr (JStr (lit ''No description''))"
    by (simp add: multilingual_empty shorten_description_def)
  have b: "multilingual [(lit ''fr'', JStr (lit ''Bonjour''))] (JStr (lit ''Untitled''))
       = JStr (lit ''Bonjour'')"
    by (simp add: multilingual_def lit_def)
  have u: "multilingual [] (JStr (lit ''Untitled'')) = JStr (lit ''Untitled'')"
    by (rule multilingual_empty)
  from t d e n m s b u show ?thesis by blast
qed

text \<open>A title with an \<^verbatim>\<open>en\<close> entry, and a description with an \<^verbatim>\<open>fr\<close> entry only.\<close>

theorem multilingual_fallback_witness:
  "eu_search_title example_runtime
      (JObj [(lit ''title'', JObj [(lit ''fr'', JStr (lit ''Bonjour'')),
                                   (lit ''en'', JStr (lit ''Hello''))])])
     = Inr (JStr (lit ''Hello''))
   \<and> eu_info_description example_runtime
      (JObj [(lit ''description'', JObj [(lit ''fr'', JStr (lit ''Bonjour''))])])
     = Inr (JStr (lit ''Bonjour''))"
proof -
  let ?o1 = "[(lit ''fr'', JStr (lit ''Bonjour'')), (lit ''en'', JStr (lit ''Hello''))]"
  let ?o2 = "[(lit ''fr'', JStr (lit ''Bonjour''))]"
  have a: "map_of [(lit ''title'', JObj ?o1)] (lit ''title'') = Some (JObj ?o1)" by simp
  have b: "map_of ?o1 (lit ''en'') = Some (JStr (lit ''Hello'')) \<and> lit ''Hello'' \<noteq> []"
    by (simp add: lit_def)
  have c: "map_of [(lit ''description'', JObj ?o2)] (lit ''description'') = Some (JObj ?o2)"
    by simp
  have d: "map_of ?o2 (lit ''en'') = None \<and> ?o2 \<noteq> []"
    by (simp add: lit_def)
  from multilingual_fallback [where d = "[(lit ''title'', JObj ?o1)]" and obj = ?o1
      and rt = example_runtime and ph = "JStr (lit ''Untitled'')"] a b
  have 1: "eu_search_title example_runtime (JObj [(lit ''title'', JObj ?o1)])
     = Inr (JStr (lit ''Hello''))" by simp
  from multilingual_fallback [where d = "[(lit ''description'', JObj ?o2)]" and obj = ?o2
      and rt = example_runtime and ph = "JStr (lit ''No description'')"] c d
  have 2: "eu_info_description example_runtime (JObj [(lit ''description'', JObj ?o2)])
     = Inr (JStr (lit ''Bonjour''))" by simp
  from 1 2 show ?thesis by blast
qed

text \<open>
  C6 as stated has an entry of the dict used whenever the dict is not empty. In
  \<^verbatim>\<open>search_eu_datasets\<close> the description dict with the one entry \<^verbatim>\<open>fr\<close>, the empty string,
  gives \<^verbatim>\<open>No description\<close>, and an \<^verbatim>\<open>en\<close> entry of 201 characters gives its first 200:
  neither is an entry of the dict.
\<close>

theorem search_description_counterexample:
  "eu_search_description example_runtime
      (JObj [(lit ''description'', JObj [(lit ''fr'', JStr [])])])
     = Inr (JStr (lit ''No description''))
   \<and> JStr (lit ''No description'') \<notin> snd ` set [(lit ''fr'', JStr [])]
   \<and> eu_search_description example_runtime
      (JObj [(lit ''description'', JObj [(lit ''en'', JStr (replicate 201 97))])])
     = Inr (JStr (replicate 200 97))
   \<and> JStr (replicate 200 97) \<notin> snd ` set [(lit ''en'', JStr (replicate 201 97))]"
  by (simp add: eu_search_description_def ebind_def localized_def multilingual_def
      shorten_description_def lit_def)

subsection \<open>The number of rendered entries\<close>















subsection \<open>The comparison of countries\<close>

lemma fetch_point_sent:
  "snd (fetch_point cfg net indicator c sent) = sent @ [compare_request indicator c]"
  using snd_fetch_json [of cfg net "compare_url indicator c" "Some compare_params" sent]
  by (cases "fetch_json cfg net (compare_url indicator c) (Some compare_params) sent")
     (simp add: fetch_point_def Let_def compare_request_def)

lemma collect_points_sent:
  "snd (collect_points cfg net indicator cs sent) = sent @ map (compare_request indicator) cs"
proof (induction cs arbitrary: sent)
  case Nil
  then show ?case by simp
next
  case (Cons c cs)
  obtain ps s1 where f: "fetch_point cfg net indicator c sent = (ps, s1)"
    by (cases "fetch_point cfg net indicator c sent")
  with fetch_point_sent [of cfg net indicator c sent]
  have s1: "s1 = sent @ [compare_request indicator c]" by simp
  obtain rest s2 where r: "collect_points cfg net indicator cs s1 = (rest, s2)"
    by (cases "collect_points cfg net indicator cs s1")
  with Cons.IH [of s1] have "s2 = s1 @ map (compare_request indicator) cs" by simp
  with f r s1 show ?case by simp
qed

lemma fetch_point_failure:
  assumes "\<forall>d. net sent (compare_request indicator c) \<noteq> Json d"
  shows "fetch_point cfg net indicator c sent = ([], sent @ [compare_request indicator c])"
proof -
  from assms have "\<exists>e. fst (fetch_json cfg net (compare_url indicator c) (Some compare_params) sent)
      = Inl e"
    by (cases "net sent (compare_request indicator c)")
       (auto simp: fetch_json_def Let_def compare_request_def)
  then obtain e where "fst (fetch_json cfg net (compare_url indicator c) (Some compare_params) sent)
      = Inl e" ..
  moreover have "snd (fetch_json cfg net (compare_url indicator c) (Some compare_params) sent)
      = sent @ [compare_request indicator c]"
    by (simp add: snd_fetch_json compare_request_def)
  ultimately have "fetch_json cfg net (compare_url indicator c) (Some compare_params) sent
      = (Inl e, sent @ [compare_request indicator c])"
    by (simp add: prod_eq_iff)
  then show ?thesis by (simp add: fetch_point_def Let_def ebind_def)
qed

text \<open>
  What lines 106-113 read from a response: the second element of the list is a
  non-empty list whose first element is a dict with a \<^verbatim>\<open>value\<close> that is not \<^verbatim>\<open>None\<close>, and its
  \<^verbatim>\<open>country\<close>, when it has one, is a dict. Nothing else of the response matters.
\<close>

lemma extract_point_record:
  assumes "map_of entry (lit ''value'') = Some v" and "v \<noteq> JNull"
    and "map_of entry (lit ''country'') = None \<and> cobj = []
         \<or> map_of entry (lit ''country'') = Some (JObj cobj)"
  shows "extract_point c (JArr (meta # JArr (JObj entry # others) # rest)) =
     Inr (Some (case map_of cobj (lit ''value'') of Some n \<Rightarrow> n | None \<Rightarrow> JStr c,
                v,
                case map_of entry (lit ''date'') of Some y \<Rightarrow> y | None \<Rightarrow> JNull))"
  using assms by (auto simp: extract_point_def ebind_def split: option.splits)

lemma fetch_point_extract:
  assumes "net sent (compare_request indicator c) = Json d"
    and "extract_point c d = Inr (Some p)"
  shows "fetch_point cfg net indicator c sent = ([p], sent @ [compare_request indicator c])"
proof -
  from assms(1) have "fetch_json cfg net (compare_url indicator c) (Some compare_params) sent
      = (Inr d, sent @ [compare_request indicator c])"
    by (simp add: fetch_json_def Let_def compare_request_def)
  then show ?thesis
    by (simp add: fetch_point_def Let_def ebind_def assms(2))
qed

lemma sort_points_sorted:
  assumes "sort_points points = Inr s"
  shows "mset s = mset points \<and> sorted_wrt (\<lambda>p q. point_key q \<le> point_key p) s"
proof -
  from assms have s: "s = rev (sort_key point_key (rev points))"
    by (simp add: sort_points_def split: if_splits)
  have "sorted (map point_key (sort_key point_key (rev points)))"
    by (rule sorted_sort_key)
  then have "sorted_wrt (\<lambda>p q. point_key p \<le> point_key q) (sort_key point_key (rev points))"
    by (simp add: sorted_map)
  then have "sorted_wrt (\<lambda>p q. point_key q \<le> point_key p) s"
    by (simp add: s sorted_wrt_rev)
  moreover have "mset s = mset points" by (simp add: s)
  ultimately show ?thesis by blast
qed

lemma sort_points_Inl: "sort_points points = Inl e \<Longrightarrow> e = Raised"
  by (simp add: sort_points_def split: if_splits)

lemma float_of_int_Inl: "float_of_int i = Inl e \<Longrightarrow> e = Raised"
  by (simp add: float_of_int_def split: option.splits)

lemma py_float_of_Inl: "py_float_of v = Inl e \<Longrightarrow> e = Raised"
  by (cases v) (auto dest: float_of_int_Inl)

lemma format_point_Inl: "format_point rt indicator p = Inl e \<Longrightarrow> e = Raised"
  by (cases p) (auto simp: format_point_def ebind_def Let_def split: sum.splits
      dest: py_float_of_Inl)

lemma format_points_Inl:
  "for_each (format_point rt indicator) xs = Inl e \<Longrightarrow> e = Raised"
  by (induction xs arbitrary: e)
     (auto simp: ebind_def split: sum.splits dest: format_point_Inl)

lemma compare_countries_no_exception:
  "fst (compare_countries cfg rt net countries indicator sent) \<noteq> Inl (Exception m)"
proof
  assume a: "fst (compare_countries cfg rt net countries indicator sent) = Inl (Exception m)"
  obtain pts s where c: "collect_points cfg net indicator countries sent = (pts, s)"
    by (cases "collect_points cfg net indicator countries sent")
  show False
  proof (cases "sort_points pts")
    case (Inl e)
    with sort_points_Inl have "e = Raised" by blast
    with a c Inl show False by (simp add: compare_countries_def Let_def ebind_def)
  next
    case (Inr sorted_points)
    show False
    proof (cases "for_each (format_point rt indicator) sorted_points")
      case (Inl e)
      from Inl have "e = Raised" by (rule format_points_Inl)
      with a c Inr Inl show False by (simp add: compare_countries_def Let_def ebind_def)
    next
      case r: (Inr lines)
      with a c Inr show False by (simp add: compare_countries_def Let_def ebind_def)
    qed
  qed
qed

lemma sort_points_two:
  assumes "number_key (fst (snd a)) \<noteq> None" and "number_key (fst (snd b)) \<noteq> None"
  shows "sort_points [a, b] = Inr (if point_key b \<le> point_key a then [a, b] else [b, a])"
  using assms by (simp add: sort_points_def)

lemma py_float_of_Inr: "py_float_of v \<noteq> Inl Raised \<Longrightarrow> \<exists>x. py_float_of v = Inr x"
  by (cases "py_float_of v") (auto dest: py_float_of_Inl)

lemma py_float_of_number: "py_float_of v \<noteq> Inl Raised \<Longrightarrow> number_key v \<noteq> None"
proof (cases v)
  case (JFloat x)
  then show ?thesis by (cases x) simp_all
qed simp_all

lemma format_point_Inr:
  "py_float_of v \<noteq> Inl Raised \<Longrightarrow> \<exists>l. format_point rt indicator (n, v, y) = Inr l"
  by (auto simp: format_point_def ebind_def Let_def dest!: py_float_of_Inr)

lemma compare_countries_sorted:
  "fst (compare_countries cfg rt net countries indicator sent) =
     ebind (sort_points (fst (collect_points cfg net indicator countries sent))) (\<lambda>s.
     ebind (for_each (format_point rt indicator) s) (\<lambda>lines.
       Inr (py_join [10] ((lit ''**Comparing '' @ compare_indicator_name indicator
                             @ lit ''**'' @ [10]) # lines))))"
  by (cases "collect_points cfg net indicator countries sent")
     (simp add: compare_countries_def Let_def)

lemma two_points_output:
  assumes c: "fst (collect_points cfg net indicator cs sent) = [(n1, v1, y1), (n2, v2, y2)]"
    and k: "py_float_of v1 \<noteq> Inl Raised" "py_float_of v2 \<noteq> Inl Raised"
  shows "\<exists>p q l1 l2. point_key q \<le> point_key p
     \<and> sort_points (fst (collect_points cfg net indicator cs sent)) = Inr [p, q]
     \<and> format_point rt indicator p = Inr l1
     \<and> format_point rt indicator q = Inr l2
     \<and> fst (compare_countries cfg rt net cs indicator sent) =
           Inr (py_join [10] [lit ''**Comparing '' @ compare_indicator_name indicator
                                @ lit ''**'' @ [10], l1, l2])"
proof -
  let ?a = "(n1, v1, y1)" and ?b = "(n2, v2, y2)"
  from k have s: "sort_points [?a, ?b]
      = Inr (if point_key ?b \<le> point_key ?a then [?a, ?b] else [?b, ?a])"
    by (intro sort_points_two) (simp_all add: py_float_of_number)
  from k(1) obtain la where la: "format_point rt indicator ?a = Inr la"
    using format_point_Inr by blast
  from k(2) obtain lb where lb: "format_point rt indicator ?b = Inr lb"
    using format_point_Inr by blast
  show ?thesis
  proof (cases "point_key ?b \<le> point_key ?a")
    case True
    with s have s': "sort_points [?a, ?b] = Inr [?a, ?b]" by simp
    have "fst (compare_countries cfg rt net cs indicator sent) =
           Inr (py_join [10] [lit ''**Comparing '' @ compare_indicator_name indicator
                                @ lit ''**'' @ [10], la, lb])"
      by (simp add: compare_countries_sorted c s' la lb ebind_def)
    with True s' c la lb show ?thesis by auto
  next
    case False
    then have le: "point_key ?a \<le> point_key ?b" by simp
    from False s have s': "sort_points [?a, ?b] = Inr [?b, ?a]" by simp
    have "fst (compare_countries cfg rt net cs indicator sent) =
           Inr (py_join [10] [lit ''**Comparing '' @ compare_indicator_name indicator
                                @ lit ''**'' @ [10], lb, la])"
      by (simp add: compare_countries_sorted c s' la lb ebind_def)
    with le s' c la lb show ?thesis by auto
  qed
qed

lemma collect_points_three:
  assumes "fetch_point cfg net indicator c1 sent = (ps1, s1)"
    and "fetch_point cfg net indicator c2 s1 = (ps2, s2)"
    and "fetch_point cfg net indicator c3 s2 = (ps3, s3)"
  shows "fst (collect_points cfg net indicator [c1, c2, c3] sent) = ps1 @ ps2 @ ps3"
  using assms by simp

lemma three_countries_one_failure:
  fixes net :: network
  assumes i: "i < 3"
    and o: "outcomes = [net sent (compare_request indicator c1),
                        net (sent @ [compare_request indicator c1]) (compare_request indicator c2),
                        net (sent @ [compare_request indicator c1, compare_request indicator c2])
                          (compare_request indicator c3)]"
    and f: "\<forall>d. outcomes ! i \<noteq> Json d"
    and g: "\<forall>j<3. j \<noteq> i \<longrightarrow>
              (\<exists>d n v y. outcomes ! j = Json d
                         \<and> extract_point ([c1, c2, c3] ! j) d = Inr (Some (n, v, y))
                         \<and> py_float_of v \<noteq> Inl Raised)"
  shows "\<exists>n1 v1 y1 n2 v2 y2.
           fst (collect_points cfg net indicator [c1, c2, c3] sent) = [(n1, v1, y1), (n2, v2, y2)]
         \<and> py_float_of v1 \<noteq> Inl Raised \<and> py_float_of v2 \<noteq> Inl Raised"
proof -
  let ?r1 = "compare_request indicator c1"
  let ?r2 = "compare_request indicator c2"
  let ?r3 = "compare_request indicator c3"
  let ?s1 = "sent @ [?r1]"
  let ?s2 = "sent @ [?r1, ?r2]"
  have s2: "?s1 @ [?r2] = ?s2" by simp
  from i consider "i = 0" | "i = 1" | "i = 2" by linarith
  then show ?thesis
  proof cases
    case 1
    from f o 1 have a: "\<forall>d. net sent ?r1 \<noteq> Json d" by simp
    from g [rule_format, of 1] o 1 obtain d n v y
      where b: "net ?s1 ?r2 = Json d"
        and bx: "extract_point c2 d = Inr (Some (n, v, y))"
        and bv: "py_float_of v \<noteq> Inl Raised" by auto
    from g [rule_format, of 2] o 1 obtain d' n' v' y'
      where c: "net ?s2 ?r3 = Json d'"
        and cx: "extract_point c3 d' = Inr (Some (n', v', y'))"
        and cv: "py_float_of v' \<noteq> Inl Raised" by auto
    have p1: "fetch_point cfg net indicator c1 sent = ([], ?s1)"
      by (rule fetch_point_failure) (rule a)
    have p2: "fetch_point cfg net indicator c2 ?s1 = ([(n, v, y)], ?s1 @ [?r2])"
      by (rule fetch_point_extract, rule b, rule bx)
    have p3: "fetch_point cfg net indicator c3 ?s2 = ([(n', v', y')], ?s2 @ [?r3])"
      by (rule fetch_point_extract, rule c, rule cx)
    from collect_points_three [OF p1 p2 [unfolded s2] p3]
    have "fst (collect_points cfg net indicator [c1, c2, c3] sent) = [(n, v, y), (n', v', y')]"
      by simp
    with bv cv show ?thesis by blast
  next
    case 2
    from f o 2 have a: "\<forall>d. net ?s1 ?r2 \<noteq> Json d" by simp
    from g [rule_format, of 0] o 2 obtain d n v y
      where b: "net sent ?r1 = Json d"
        and bx: "extract_point c1 d = Inr (Some (n, v, y))"
        and bv: "py_float_of v \<noteq> Inl Raised" by auto
    from g [rule_format, of 2] o 2 obtain d' n' v' y'
      where c: "net ?s2 ?r3 = Json d'"
        and cx: "extract_point c3 d' = Inr (Some (n', v', y'))"
        and cv: "py_float_of v' \<noteq> Inl Raised" by auto
    have p1: "fetch_point cfg net indicator c1 sent = ([(n, v, y)], ?s1)"
      by (rule fetch_point_extract, rule b, rule bx)
    have p2: "fetch_point cfg net indicator c2 ?s1 = ([], ?s1 @ [?r2])"
      by (rule fetch_point_failure) (rule a)
    have p3: "fetch_point cfg net indicator c3 ?s2 = ([(n', v', y')], ?s2 @ [?r3])"
      by (rule fetch_point_extract, rule c, rule cx)
    from collect_points_three [OF p1 p2 [unfolded s2] p3]
    have "fst (collect_points cfg net indicator [c1, c2, c3] sent) = [(n, v, y), (n', v', y')]"
      by simp
    with bv cv show ?thesis by blast
  next
    case 3
    from f o 3 have a: "\<forall>d. net ?s2 ?r3 \<noteq> Json d" by simp
    from g [rule_format, of 0] o 3 obtain d n v y
      where b: "net sent ?r1 = Json d"
        and bx: "extract_point c1 d = Inr (Some (n, v, y))"
        and bv: "py_float_of v \<noteq> Inl Raised" by auto
    from g [rule_format, of 1] o 3 obtain d' n' v' y'
      where c: "net ?s1 ?r2 = Json d'"
        and cx: "extract_point c2 d' = Inr (Some (n', v', y'))"
        and cv: "py_float_of v' \<noteq> Inl Raised" by auto
    have p1: "fetch_point cfg net indicator c1 sent = ([(n, v, y)], ?s1)"
      by (rule fetch_point_extract, rule b, rule bx)
    have p2: "fetch_point cfg net indicator c2 ?s1 = ([(n', v', y')], ?s1 @ [?r2])"
      by (rule fetch_point_extract, rule c, rule cx)
    have p3: "fetch_point cfg net indicator c3 ?s2 = ([], ?s2 @ [?r3])"
      by (rule fetch_point_failure) (rule a)
    from collect_points_three [OF p1 p2 [unfolded s2] p3]
    have "fst (collect_points cfg net indicator [c1, c2, c3] sent) = [(n, v, y), (n', v', y')]"
      by simp
    with bv cv show ?thesis by blast
  qed
qed

text \<open>
  C3, as the code has it. The tool makes one request for each country, in the order of
  the list, whatever the earlier requests gave, and no failure of a fetch reaches the
  caller: the \<^verbatim>\<open>except Exception: pass\<close> of the loop swallows it, so a country whose fetch fails
  adds no data point and the loop goes on with the next country, while a country whose
  response holds a record with a value that is not \<^verbatim>\<open>None\<close> adds its data point. The sort
  and the loop that makes the lines stand after the \<^verbatim>\<open>try\<close>: they take the values for
  numbers. The sort keeps the data points and puts them in descending order of their
  values, and the output is the header and one line for each of them in that order. For
  three countries of which the fetch of exactly one fails and the two others add a data
  point whose value is a number that a \<^verbatim>\<open>float\<close> holds, the output is the header and
  exactly two lines, the line of the larger value first. (NaN is no value of the type
  \<open>json\<close>, so nothing is said about a response with the token \<^verbatim>\<open>NaN\<close>.)
\<close>

theorem compare_countries_partial_failure:
  fixes net :: network
  shows
  "(\<forall>m. fst (compare_countries cfg rt net countries indicator sent) \<noteq> Inl (Exception m))
   \<and> snd (compare_countries cfg rt net countries indicator sent)
       = sent @ map (compare_request indicator) countries
   \<and> ((\<forall>d. net sent (compare_request indicator c) \<noteq> Json d) \<longrightarrow>
         collect_points cfg net indicator (c # cs) sent
           = collect_points cfg net indicator cs (sent @ [compare_request indicator c]))
   \<and> (\<forall>d p. net sent (compare_request indicator c) = Json d
            \<and> extract_point c d = Inr (Some p) \<longrightarrow>
         fst (collect_points cfg net indicator (c # cs) sent)
           = p # fst (collect_points cfg net indicator cs
                        (sent @ [compare_request indicator c])))
   \<and> (map_of entry (lit ''value'') = Some v \<and> v \<noteq> JNull
        \<and> (map_of entry (lit ''country'') = None \<and> cobj = []
           \<or> map_of entry (lit ''country'') = Some (JObj cobj)) \<longrightarrow>
         extract_point c (JArr (meta # JArr (JObj entry # others) # rest)) =
           Inr (Some (case map_of cobj (lit ''value'') of Some n \<Rightarrow> n | None \<Rightarrow> JStr c,
                      v,
                      case map_of entry (lit ''date'') of Some y \<Rightarrow> y | None \<Rightarrow> JNull)))
   \<and> fst (compare_countries cfg rt net countries indicator sent) =
       ebind (sort_points (fst (collect_points cfg net indicator countries sent))) (\<lambda>s.
       ebind (for_each (format_point rt indicator) s) (\<lambda>lines.
         Inr (py_join [10] ((lit ''**Comparing '' @ compare_indicator_name indicator
                               @ lit ''**'' @ [10]) # lines))))
   \<and> (\<forall>s. sort_points points = Inr s \<longrightarrow>
         mset s = mset points \<and> sorted_wrt (\<lambda>p q. point_key q \<le> point_key p) s)
   \<and> (\<forall>i<3.
        (let outcomes =
           [net sent (compare_request indicator c1),
            net (sent @ [compare_request indicator c1]) (compare_request indicator c2),
            net (sent @ [compare_request indicator c1, compare_request indicator c2])
              (compare_request indicator c3)]
         in (\<forall>d. outcomes ! i \<noteq> Json d)
          \<and> (\<forall>j<3. j \<noteq> i \<longrightarrow>
                (\<exists>d n v y. outcomes ! j = Json d
                           \<and> extract_point ([c1, c2, c3] ! j) d = Inr (Some (n, v, y))
                           \<and> py_float_of v \<noteq> Inl Raised))
          \<longrightarrow> (\<exists>p q l1 l2.
                 point_key q \<le> point_key p
               \<and> sort_points (fst (collect_points cfg net indicator [c1, c2, c3] sent))
                   = Inr [p, q]
               \<and> format_point rt indicator p = Inr l1
               \<and> format_point rt indicator q = Inr l2
               \<and> fst (compare_countries cfg rt net [c1, c2, c3] indicator sent) =
                   Inr (py_join [10] [lit ''**Comparing '' @ compare_indicator_name indicator
                                        @ lit ''**'' @ [10], l1, l2]))))"
proof -
  have a: "\<forall>m. fst (compare_countries cfg rt net countries indicator sent) \<noteq> Inl (Exception m)"
    by (simp add: compare_countries_no_exception)
  have b: "snd (compare_countries cfg rt net countries indicator sent)
       = sent @ map (compare_request indicator) countries"
    using collect_points_sent [of cfg net indicator countries sent]
    by (cases "collect_points cfg net indicator countries sent")
       (simp add: compare_countries_def Let_def)
  have c: "(\<forall>d. net sent (compare_request indicator c) \<noteq> Json d) \<longrightarrow>
         collect_points cfg net indicator (c # cs) sent
           = collect_points cfg net indicator cs (sent @ [compare_request indicator c])"
    by (simp add: fetch_point_failure)
  have d: "\<forall>d p. net sent (compare_request indicator c) = Json d
            \<and> extract_point c d = Inr (Some p) \<longrightarrow>
         fst (collect_points cfg net indicator (c # cs) sent)
           = p # fst (collect_points cfg net indicator cs
                        (sent @ [compare_request indicator c]))"
  proof (intro allI impI, elim conjE)
    fix d p
    assume r: "net sent (compare_request indicator c) = Json d"
      and x: "extract_point c d = Inr (Some p)"
    have "fetch_point cfg net indicator c sent = ([p], sent @ [compare_request indicator c])"
      by (rule fetch_point_extract, rule r, rule x)
    then show "fst (collect_points cfg net indicator (c # cs) sent)
           = p # fst (collect_points cfg net indicator cs
                        (sent @ [compare_request indicator c]))"
      by (simp split: prod.splits)
  qed
  have x: "map_of entry (lit ''value'') = Some v \<and> v \<noteq> JNull
        \<and> (map_of entry (lit ''country'') = None \<and> cobj = []
           \<or> map_of entry (lit ''country'') = Some (JObj cobj)) \<longrightarrow>
         extract_point c (JArr (meta # JArr (JObj entry # others) # rest)) =
           Inr (Some (case map_of cobj (lit ''value'') of Some n \<Rightarrow> n | None \<Rightarrow> JStr c,
                      v,
                      case map_of entry (lit ''date'') of Some y \<Rightarrow> y | None \<Rightarrow> JNull))"
    using extract_point_record [of entry v cobj c meta others rest] by blast
  have e: "fst (compare_countries cfg rt net countries indicator sent) =
       ebind (sort_points (fst (collect_points cfg net indicator countries sent))) (\<lambda>s.
       ebind (for_each (format_point rt indicator) s) (\<lambda>lines.
         Inr (py_join [10] ((lit ''**Comparing '' @ compare_indicator_name indicator
                               @ lit ''**'' @ [10]) # lines))))"
    by (rule compare_countries_sorted)
  have f: "\<forall>s. sort_points points = Inr s \<longrightarrow>
         mset s = mset points \<and> sorted_wrt (\<lambda>p q. point_key q \<le> point_key p) s"
    by (simp add: sort_points_sorted)
  have g: "\<forall>i<3.
        (let outcomes =
           [net sent (compare_request indicator c1),
            net (sent @ [compare_request indicator c1]) (compare_request indicator c2),
            net (sent @ [compare_request indicator c1, compare_request indicator c2])
              (compare_request indicator c3)]
         in (\<forall>d. outcomes ! i \<noteq> Json d)
          \<and> (\<forall>j<3. j \<noteq> i \<longrightarrow>
                (\<exists>d n v y. outcomes ! j = Json d
                           \<and> extract_point ([c1, c2, c3] ! j) d = Inr (Some (n, v, y))
                           \<and> py_float_of v \<noteq> Inl Raised))
          \<longrightarrow> (\<exists>p q l1 l2.
                 point_key q \<le> point_key p
               \<and> sort_points (fst (collect_points cfg net indicator [c1, c2, c3] sent))
                   = Inr [p, q]
               \<and> format_point rt indicator p = Inr l1
               \<and> format_point rt indicator q = Inr l2
               \<and> fst (compare_countries cfg rt net [c1, c2, c3] indicator sent) =
                   Inr (py_join [10] [lit ''**Comparing '' @ compare_indicator_name indicator
                                        @ lit ''**'' @ [10], l1, l2])))"
    unfolding Let_def
  proof (intro allI impI, elim conjE)
    fix i :: nat
    let ?outcomes = "[net sent (compare_request indicator c1),
            net (sent @ [compare_request indicator c1]) (compare_request indicator c2),
            net (sent @ [compare_request indicator c1, compare_request indicator c2])
              (compare_request indicator c3)]"
    assume i: "i < 3"
      and fail: "\<forall>d. ?outcomes ! i \<noteq> Json d"
      and ok: "\<forall>j<3. j \<noteq> i \<longrightarrow>
                (\<exists>d n v y. ?outcomes ! j = Json d
                           \<and> extract_point ([c1, c2, c3] ! j) d = Inr (Some (n, v, y))
                           \<and> py_float_of v \<noteq> Inl Raised)"
    from three_countries_one_failure [where cfg = cfg, OF i refl fail ok]
    obtain n1 v1 y1 n2 v2 y2
      where pts: "fst (collect_points cfg net indicator [c1, c2, c3] sent)
                    = [(n1, v1, y1), (n2, v2, y2)]"
        and k: "py_float_of v1 \<noteq> Inl Raised" "py_float_of v2 \<noteq> Inl Raised"
      by blast
    from two_points_output [OF pts k]
    show "\<exists>p q l1 l2.
                 point_key q \<le> point_key p
               \<and> sort_points (fst (collect_points cfg net indicator [c1, c2, c3] sent))
                   = Inr [p, q]
               \<and> format_point rt indicator p = Inr l1
               \<and> format_point rt indicator q = Inr l2
               \<and> fst (compare_countries cfg rt net [c1, c2, c3] indicator sent) =
                   Inr (py_join [10] [lit ''**Comparing '' @ compare_indicator_name indicator
                                        @ lit ''**'' @ [10], l1, l2])" .
  qed
  from a b c d x e f g show ?thesis by (intro conjI)
qed

text \<open>The lines of the two known countries, and the order of their values.\<close>

lemma extract_example:
  "v \<noteq> JNull \<Longrightarrow>
   extract_point c (wb_response iso2 iso3 name year v) = Inr (Some (JStr name, v, JStr year))"
  unfolding wb_response_def
  by (subst extract_point_record [where v = v
        and cobj = "[(lit ''id'', JStr iso2), (lit ''value'', JStr name)]"])
     (simp_all add: lit_def)

lemma float_china: "py_float_of (JInt 1412175000) = Inr (Finite False 1412175000)"
  by code_simp

lemma float_us: "py_float_of (JInt 333287557) = Inr (Finite False 333287557)"
  by code_simp

lemma scale_china:
  "float_scale (Finite False 1412175000) (1 / 10 ^ 6)
     = Finite False (6210811331818291 / 4398046511104)"
  by code_simp

lemma scale_us:
  "float_scale (Finite False 333287557) (1 / 10 ^ 6)
     = Finite False (2931628354516451 / 8796093022208)"
  by code_simp

lemma floor_china: "\<lfloor>31054056659091455 / 2199023255552 :: rat\<rfloor> = 14121"
  by (simp add: floor_eq_iff)

lemma floor_us: "\<lfloor>14658141772582255 / 4398046511104 :: rat\<rfloor> = 3332"
  by (simp add: floor_eq_iff)

lemma fmt_china:
  "fmt_fixed False 1 (Finite False (6210811331818291 / 4398046511104)) = lit ''1412.2''"
  by (simp add: fmt_fixed_def round_half_even_def Let_def floor_china digits.simps [of 1412]
      digits.simps [of 141] digits.simps [of 14] digits.simps [of "Suc 0"] digits.simps [of 12]
      lit_def)

lemma fmt_us:
  "fmt_fixed False 1 (Finite False (2931628354516451 / 8796093022208)) = lit ''333.3''"
  by (simp add: fmt_fixed_def round_half_even_def Let_def floor_us digits.simps [of 333]
      digits.simps [of 33] digits.simps [of 3] digits.simps [of 13] digits.simps [of "Suc 0"]
      lit_def)

lemma sort_example:
  "sort_points [(JStr (lit ''United States''), JInt 333287557, JStr (lit ''2022'')),
                (JStr (lit ''China''), JInt 1412175000, JStr (lit ''2022''))]
     = Inr [(JStr (lit ''China''), JInt 1412175000, JStr (lit ''2022'')),
            (JStr (lit ''United States''), JInt 333287557, JStr (lit ''2022''))]"
  by (simp add: sort_points_def point_key_def)

lemma format_china:
  "format_point example_runtime (lit ''SP.POP.TOTL'')
     (JStr (lit ''China''), JInt 1412175000, JStr (lit ''2022''))
   = Inr (lit ''- China: 1412.2M (2022)'')"
proof -
  have i: "lit ''SP.POP.TOTL'' \<noteq> lit ''NY.GDP.MKTP.CD''" by (simp add: lit_def)
  show ?thesis
    by (simp only: format_point_def prod.case float_china ebind_def sum.case Let_def i
          if_False if_True simp_thms scale_china fmt_china py_str.simps)
       (simp add: lit_def)
qed

lemma format_us:
  "format_point example_runtime (lit ''SP.POP.TOTL'')
     (JStr (lit ''United States''), JInt 333287557, JStr (lit ''2022''))
   = Inr (lit ''- United States: 333.3M (2022)'')"
proof -
  have i: "lit ''SP.POP.TOTL'' \<noteq> lit ''NY.GDP.MKTP.CD''" by (simp add: lit_def)
  show ?thesis
    by (simp only: format_point_def prod.case float_us ebind_def sum.case Let_def i
          if_False if_True simp_thms scale_us fmt_us py_str.simps)
       (simp add: lit_def)
qed

text \<open>
  Three countries, the second unknown to the upstream: \<^verbatim>\<open>USA\<close>, \<^verbatim>\<open>XXX\<close> and \<^verbatim>\<open>CHN\<close>. China has
  the larger population and comes first.
\<close>

theorem compare_countries_partial_failure_witness:
  "(\<exists>p q l1 l2.
       point_key q \<le> point_key p
     \<and> sort_points (fst (collect_points example_config example_worldbank (lit ''SP.POP.TOTL'')
                          [lit ''USA'', lit ''XXX'', lit ''CHN''] [])) = Inr [p, q]
     \<and> format_point example_runtime (lit ''SP.POP.TOTL'') p = Inr l1
     \<and> format_point example_runtime (lit ''SP.POP.TOTL'') q = Inr l2
     \<and> fst (compare_countries example_config example_runtime example_worldbank
              [lit ''USA'', lit ''XXX'', lit ''CHN''] (lit ''SP.POP.TOTL'') []) =
         Inr (py_join [10] [lit ''**Comparing '' @ compare_indicator_name (lit ''SP.POP.TOTL'')
                              @ lit ''**'' @ [10], l1, l2]))
   \<and> fst (compare_countries example_config example_runtime example_worldbank
            [lit ''USA'', lit ''XXX'', lit ''CHN''] (lit ''SP.POP.TOTL'') []) =
       Inr (lit ''**Comparing Population**\<newline>\<newline>- China: 1412.2M (2022)\<newline>- United States: 333.3M (2022)'')
   \<and> snd (compare_countries example_config example_runtime example_worldbank
            [lit ''USA'', lit ''XXX'', lit ''CHN''] (lit ''SP.POP.TOTL'') []) =
       [] @ map (compare_request (lit ''SP.POP.TOTL'')) [lit ''USA'', lit ''XXX'', lit ''CHN'']"
proof -
  let ?ind = "lit ''SP.POP.TOTL''"
  let ?r1 = "compare_request ?ind (lit ''USA'')"
  let ?r2 = "compare_request ?ind (lit ''XXX'')"
  let ?r3 = "compare_request ?ind (lit ''CHN'')"
  let ?us = "wb_response (lit ''US'') (lit ''USA'') (lit ''United States'') (lit ''2022'')
               (JInt 333287557)"
  let ?cn = "wb_response (lit ''CN'') (lit ''CHN'') (lit ''China'') (lit ''2022'')
               (JInt 1412175000)"
  let ?pus = "(JStr (lit ''United States''), JInt 333287557, JStr (lit ''2022''))"
  let ?pcn = "(JStr (lit ''China''), JInt 1412175000, JStr (lit ''2022''))"
  let ?cs = "[lit ''USA'', lit ''XXX'', lit ''CHN'']"
  let ?outcomes = "[example_worldbank [] ?r1, example_worldbank ([] @ [?r1]) ?r2,
                    example_worldbank ([] @ [?r1, ?r2]) ?r3]"
  have o1: "example_worldbank [] ?r1 = Json ?us"
    by (simp add: example_worldbank_def compare_request_def)
  have o2: "example_worldbank ([] @ [?r1]) ?r2 = HTTPStatusError 404 (lit ''Not Found'')"
    by (simp add: example_worldbank_def compare_request_def compare_url_def lit_def)
  have o3: "example_worldbank ([] @ [?r1, ?r2]) ?r3 = Json ?cn"
    by (simp add: example_worldbank_def compare_request_def compare_url_def lit_def)
  have x1: "extract_point (lit ''USA'') ?us = Inr (Some ?pus)"
    by (rule extract_example) simp
  have x3: "extract_point (lit ''CHN'') ?cn = Inr (Some ?pcn)"
    by (rule extract_example) simp
  have f1: "py_float_of (JInt 333287557) \<noteq> Inl Raised" by (simp only: float_us) simp
  have f3: "py_float_of (JInt 1412175000) \<noteq> Inl Raised" by (simp only: float_china) simp
  have one: "(1::nat) < 3" by simp
  have n0: "?outcomes ! 0 = Json ?us" by (simp only: nth_Cons_0 o1)
  have n1: "?outcomes ! 1 = HTTPStatusError 404 (lit ''Not Found'')"
    by (simp only: nth_Cons_0 One_nat_def nth_Cons_Suc o2)
  have n2: "?outcomes ! 2 = Json ?cn"
    by (simp only: numeral_2_eq_2 nth_Cons_0 nth_Cons_Suc o3)
  have c0: "?cs ! 0 = lit ''USA''" by (simp only: nth_Cons_0)
  have c2: "?cs ! 2 = lit ''CHN''" by (simp only: numeral_2_eq_2 nth_Cons_0 nth_Cons_Suc)
  have fail: "\<forall>d. ?outcomes ! 1 \<noteq> Json d"
    by (simp only: n1) simp
  have ok: "\<forall>j<3. j \<noteq> 1 \<longrightarrow>
      (\<exists>d n v y. ?outcomes ! j = Json d
                 \<and> extract_point (?cs ! j) d = Inr (Some (n, v, y))
                 \<and> py_float_of v \<noteq> Inl Raised)"
  proof (intro allI impI)
    fix j :: nat
    assume "j < 3" and "j \<noteq> 1"
    then consider "j = 0" | "j = 2" by linarith
    then show "\<exists>d n v y. ?outcomes ! j = Json d
                 \<and> extract_point (?cs ! j) d = Inr (Some (n, v, y))
                 \<and> py_float_of v \<noteq> Inl Raised"
    proof cases
      case 1
      from x1 have "extract_point (?cs ! 0) ?us = Inr (Some ?pus)" by (simp only: c0)
      with n0 f1 have "?outcomes ! 0 = Json ?us
          \<and> extract_point (?cs ! 0) ?us = Inr (Some ?pus)
          \<and> py_float_of (JInt 333287557) \<noteq> Inl Raised"
        by (intro conjI)
      then show ?thesis unfolding 1 by (intro exI)
    next
      case 2
      from x3 have "extract_point (?cs ! 2) ?cn = Inr (Some ?pcn)" by (simp only: c2)
      with n2 f3 have "?outcomes ! 2 = Json ?cn
          \<and> extract_point (?cs ! 2) ?cn = Inr (Some ?pcn)
          \<and> py_float_of (JInt 1412175000) \<noteq> Inl Raised"
        by (intro conjI)
      then show ?thesis unfolding 2 by (intro exI)
    qed
  qed
  note inst = compare_countries_partial_failure [where cfg = example_config
      and rt = example_runtime and net = example_worldbank and indicator = ?ind and sent = "[]"
      and ?c1.0 = "lit ''USA''" and ?c2.0 = "lit ''XXX''" and ?c3.0 = "lit ''CHN''"
      and countries = ?cs]
  note requests = inst [THEN conjunct2, THEN conjunct1]
  note scen = inst [THEN conjunct2, THEN conjunct2, THEN conjunct2, THEN conjunct2,
      THEN conjunct2, THEN conjunct2, THEN conjunct2]
  from scen [rule_format, OF one, unfolded Let_def, rule_format, OF conjI, OF fail ok]
  have 1: "\<exists>p q l1 l2.
       point_key q \<le> point_key p
     \<and> sort_points (fst (collect_points example_config example_worldbank ?ind ?cs []))
         = Inr [p, q]
     \<and> format_point example_runtime ?ind p = Inr l1
     \<and> format_point example_runtime ?ind q = Inr l2
     \<and> fst (compare_countries example_config example_runtime example_worldbank ?cs ?ind []) =
         Inr (py_join [10] [lit ''**Comparing '' @ compare_indicator_name ?ind
                              @ lit ''**'' @ [10], l1, l2])" .
  have p1: "fetch_point example_config example_worldbank ?ind (lit ''USA'') []
      = ([?pus], [] @ [?r1])"
    by (rule fetch_point_extract, rule o1, rule x1)
  have p2: "fetch_point example_config example_worldbank ?ind (lit ''XXX'') ([] @ [?r1])
      = ([], ([] @ [?r1]) @ [?r2])"
    by (rule fetch_point_failure) (simp only: o2, simp)
  have s2: "([] @ [?r1]) @ [?r2] = [] @ [?r1, ?r2]" by simp
  have p3: "fetch_point example_config example_worldbank ?ind (lit ''CHN'') ([] @ [?r1, ?r2])
      = ([?pcn], ([] @ [?r1, ?r2]) @ [?r3])"
    by (rule fetch_point_extract, rule o3, rule x3)
  from collect_points_three [OF p1 p2 [unfolded s2] p3]
  have pts: "fst (collect_points example_config example_worldbank ?ind ?cs []) = [?pus, ?pcn]"
    by simp
  have 2: "fst (compare_countries example_config example_runtime example_worldbank
            ?cs ?ind []) =
       Inr (lit ''**Comparing Population**\<newline>\<newline>- China: 1412.2M (2022)\<newline>- United States: 333.3M (2022)'')"
    by (simp only: compare_countries_sorted pts sort_example ebind_def sum.case
          for_each.simps format_china format_us)
       (simp add: compare_indicator_name_def lit_def)
  from 1 2 requests show ?thesis by (intro conjI)
qed

text \<open>
  C3 as stated asks of the two other countries only that their values are not null. An
  upstream that serves the values as strings gives two data points whose values are not
  \<^verbatim>\<open>None\<close>, and the tool raises where it makes the first line (\<^verbatim>\<open>value/1e6\<close> of a \<^verbatim>\<open>str\<close>)
  instead of printing two entries.
\<close>

theorem compare_countries_text_values_counterexample:
  "example_worldbank_text [] (compare_request (lit ''SP.POP.TOTL'') (lit ''USA''))
     = Json (wb_response (lit ''US'') (lit ''USA'') (lit ''United States'') (lit ''2022'')
               (JStr (lit ''333287557'')))
   \<and> extract_point (lit ''USA'')
        (wb_response (lit ''US'') (lit ''USA'') (lit ''United States'') (lit ''2022'')
           (JStr (lit ''333287557'')))
       = Inr (Some (JStr (lit ''United States''), JStr (lit ''333287557''), JStr (lit ''2022'')))
   \<and> example_worldbank_text [compare_request (lit ''SP.POP.TOTL'') (lit ''USA'')]
        (compare_request (lit ''SP.POP.TOTL'') (lit ''XXX''))
       = HTTPStatusError 404 (lit ''Not Found'')
   \<and> example_worldbank_text [compare_request (lit ''SP.POP.TOTL'') (lit ''USA''),
                              compare_request (lit ''SP.POP.TOTL'') (lit ''XXX'')]
        (compare_request (lit ''SP.POP.TOTL'') (lit ''CHN''))
     = Json (wb_response (lit ''CN'') (lit ''CHN'') (lit ''China'') (lit ''2022'')
               (JStr (lit ''1412175000'')))
   \<and> extract_point (lit ''CHN'')
        (wb_response (lit ''CN'') (lit ''CHN'') (lit ''China'') (lit ''2022'')
           (JStr (lit ''1412175000'')))
       = Inr (Some (JStr (lit ''China''), JStr (lit ''1412175000''), JStr (lit ''2022'')))
   \<and> JStr (lit ''333287557'') \<noteq> JNull \<and> JStr (lit ''1412175000'') \<noteq> JNull
   \<and> fst (compare_countries example_config example_runtime example_worldbank_text
            [lit ''USA'', lit ''XXX'', lit ''CHN''] (lit ''SP.POP.TOTL'') []) = Inl Raised"
proof -
  let ?ind = "lit ''SP.POP.TOTL''"
  let ?r1 = "compare_request ?ind (lit ''USA'')"
  let ?r2 = "compare_request ?ind (lit ''XXX'')"
  let ?r3 = "compare_request ?ind (lit ''CHN'')"
  let ?us = "wb_response (lit ''US'') (lit ''USA'') (lit ''United States'') (lit ''2022'')
               (JStr (lit ''333287557''))"
  let ?cn = "wb_response (lit ''CN'') (lit ''CHN'') (lit ''China'') (lit ''2022'')
               (JStr (lit ''1412175000''))"
  let ?pus = "(JStr (lit ''United States''), JStr (lit ''333287557''), JStr (lit ''2022''))"
  let ?pcn = "(JStr (lit ''China''), JStr (lit ''1412175000''), JStr (lit ''2022''))"
  let ?cs = "[lit ''USA'', lit ''XXX'', lit ''CHN'']"
  have o1: "example_worldbank_text [] ?r1 = Json ?us"
    by (simp add: example_worldbank_text_def compare_request_def)
  have o2: "example_worldbank_text [?r1] ?r2 = HTTPStatusError 404 (lit ''Not Found'')"
    by (simp add: example_worldbank_text_def compare_request_def compare_url_def lit_def)
  have o3: "example_worldbank_text [?r1, ?r2] ?r3 = Json ?cn"
    by (simp add: example_worldbank_text_def compare_request_def compare_url_def lit_def)
  have x1: "extract_point (lit ''USA'') ?us = Inr (Some ?pus)"
    by (rule extract_example) simp
  have x3: "extract_point (lit ''CHN'') ?cn = Inr (Some ?pcn)"
    by (rule extract_example) simp
  have p1: "fetch_point example_config example_worldbank_text ?ind (lit ''USA'') []
      = ([?pus], [] @ [?r1])"
    by (rule fetch_point_extract, rule o1, rule x1)
  have s1: "[] @ [?r1] = [?r1]" by simp
  have p2: "fetch_point example_config example_worldbank_text ?ind (lit ''XXX'') [?r1]
      = ([], [?r1] @ [?r2])"
    by (rule fetch_point_failure) (simp only: o2, simp)
  have s2: "[?r1] @ [?r2] = [?r1, ?r2]" by simp
  have p3: "fetch_point example_config example_worldbank_text ?ind (lit ''CHN'') [?r1, ?r2]
      = ([?pcn], [?r1, ?r2] @ [?r3])"
    by (rule fetch_point_extract, rule o3, rule x3)
  from collect_points_three [OF p1 [unfolded s1] p2 [unfolded s2] p3]
  have pts: "fst (collect_points example_config example_worldbank_text ?ind ?cs [])
      = [?pus, ?pcn]"
    by simp
  have s: "sort_points [?pus, ?pcn] = Inl Raised"
    by (simp add: sort_points_def)
  have r: "fst (compare_countries example_config example_runtime example_worldbank_text
            ?cs ?ind []) = Inl Raised"
    by (simp only: compare_countries_sorted pts s ebind_def sum.case)
  have n1: "JStr (lit ''333287557'') \<noteq> JNull" by simp
  have n3: "JStr (lit ''1412175000'') \<noteq> JNull" by simp
  from o1 x1 o2 o3 x3 n1 n3 r show ?thesis by (intro conjI)
qed

end
